theory Spec2Isabelle
  imports Complex_Main "HOL-Library.AList"
begin

section \<open>Python values, exceptions and the outside world\<close>

text \<open>
  The two programs of the repository, \<^verbatim>\<open>resultv1.py\<close> and \<^verbatim>\<open>resultv2.py\<close>, are
  embedded function by function. The functions of \<^verbatim>\<open>resultv2.py\<close> keep their names; those
  of \<^verbatim>\<open>resultv1.py\<close> carry the prefix \<open>v1_\<close>.

  Text is \<^typ>\<open>string\<close>. A code point outside ASCII is written \<^verbatim>\<open><U+XXXX>\<close> in the
  literals of the source, a line feed is \<^verbatim>\<open>\<newline>\<close>.
\<close>

text \<open>What \<^verbatim>\<open>response.json()\<close> returns.\<close>

datatype json =
    JNull
  | JBool bool
  | JInt int
  | JFloat real
  | JStr string
  | JArr "json list"
  | JObj "(string \<times> json) list"

text \<open>
  The exceptions the programs raise, catch or let through. \<open>KeyError\<close> and \<open>IndexError\<close>
  carry the key, \<open>TypeError\<close> and \<open>AttributeError\<close> the offending value;
  \<open>OtherException\<close> is any exception of a class the programs name nowhere (a failure
  of the chat transport or of the translator, a body that is not JSON).
\<close>

datatype exn =
    RequestException string
  | WeatherServiceError string
  | TranslationError string
  | KeyError json
  | IndexError json
  | TypeError json
  | AttributeError json
  | OtherException string

fun is_WeatherServiceError :: "exn \<Rightarrow> bool" where
  "is_WeatherServiceError (WeatherServiceError _) = True"
| "is_WeatherServiceError _ = False"

text \<open>One answer of the weather endpoint: \<^verbatim>\<open>requests.get\<close> followed by \<^verbatim>\<open>.json()\<close>.\<close>

datatype http_outcome =
    RaisesRequestException string
  | RaisesOther string
  | Body json

datatype markup = NoMarkup | ReplyKeyboardMarkup "string list" | ReplyKeyboardRemove

datatype level = INFO | ERROR

text \<open>What the program does to the outside world, in the order it does it.\<close>

datatype event =
    HttpGet string
  | Translate json
  | Sent int string markup
  | SendFailed int string markup
  | Log level string

text \<open>
  The collaborators outside the programs are parameters. The weather endpoint, the
  translator and the chat transport answer by call number (\<open>clock\<close>), so that two calls
  with the same arguments may be answered differently. The string methods of the Python
  runtime and the command parser of the bot library are parameters too.
\<close>

record env =
  WEATHER_API_KEY :: string
  requests_get :: "nat \<Rightarrow> string \<Rightarrow> http_outcome"
  translator_translate :: "nat \<Rightarrow> json \<Rightarrow> string option \<Rightarrow> string \<Rightarrow> string + string"
  bot_send :: "nat \<Rightarrow> int \<Rightarrow> string \<Rightarrow> string option"
  str_strip :: "string \<Rightarrow> string"
  str_lower :: "string \<Rightarrow> string"
  str_capitalize :: "string \<Rightarrow> string"
  py_str :: "json \<Rightarrow> string"
  runtime_str :: "exn \<Rightarrow> string"
  extract_command :: "string \<Rightarrow> string option"

text \<open>
  The state of a running bot: the global dictionary \<^verbatim>\<open>users\<close> (insertion ordered, so an
  association list), the next-step handler registered for a chat, the number of calls
  made to the outside, and the events so far.
\<close>

record ('u, 'h) world =
  users :: "(int \<times> 'u) list"
  next_step :: "int \<Rightarrow> 'h option"
  clock :: nat
  trace :: "event list"

text \<open>An inbound message; \<^verbatim>\<open>message.text\<close> is \<^verbatim>\<open>None\<close> for a message that is not text.\<close>

record message =
  chat_id :: int
  msg_text :: "string option"

subsection \<open>Statements that may raise\<close>

type_synonym ('a, 'u, 'h) io = "('u, 'h) world \<Rightarrow> (exn + 'a) \<times> ('u, 'h) world"

definition return_io :: "'a \<Rightarrow> ('a, 'u, 'h) io" where
  "return_io x w = (Inr x, w)"

definition raise_io :: "exn \<Rightarrow> ('a, 'u, 'h) io" where
  "raise_io e w = (Inl e, w)"

definition bind_io :: "('a, 'u, 'h) io \<Rightarrow> ('a \<Rightarrow> ('b, 'u, 'h) io) \<Rightarrow> ('b, 'u, 'h) io" where
  "bind_io m f w = (case m w of (Inl e, w') \<Rightarrow> (Inl e, w') | (Inr x, w') \<Rightarrow> f x w')"

text \<open>\<^verbatim>\<open>try: m except ... as e: h e\<close>; a handler that does not match re-raises.\<close>

definition catch_io :: "('a, 'u, 'h) io \<Rightarrow> (exn \<Rightarrow> ('a, 'u, 'h) io) \<Rightarrow> ('a, 'u, 'h) io" where
  "catch_io m h w = (case m w of (Inl e, w') \<Rightarrow> h e w' | (Inr x, w') \<Rightarrow> (Inr x, w'))"

definition lift_io :: "exn + 'a \<Rightarrow> ('a, 'u, 'h) io" where
  "lift_io r w = (r, w)"

definition str_exn :: "env \<Rightarrow> exn \<Rightarrow> string" where
  "str_exn env e =
     (case e of
        RequestException s \<Rightarrow> s
      | WeatherServiceError s \<Rightarrow> s
      | TranslationError s \<Rightarrow> s
      | OtherException s \<Rightarrow> s
      | _ \<Rightarrow> runtime_str env e)"

subsection \<open>Operations on parsed JSON\<close>

text \<open>A parsed object keeps the last value of a repeated key.\<close>

definition obj_lookup :: "(string \<times> json) list \<Rightarrow> string \<Rightarrow> json option" where
  "obj_lookup kvs k = map_of (rev kvs) k"

text \<open>\<^verbatim>\<open>data.get(k)\<close> and \<^verbatim>\<open>data.get(k, d)\<close>: only a dict has the method.\<close>

definition py_get :: "json \<Rightarrow> string \<Rightarrow> json \<Rightarrow> exn + json" where
  "py_get data k d =
     (case data of
        JObj kvs \<Rightarrow> (case obj_lookup kvs k of Some v \<Rightarrow> Inr v | None \<Rightarrow> Inr d)
      | _ \<Rightarrow> Inl (AttributeError data))"

text \<open>\<^verbatim>\<open>data[k]\<close> with a string key.\<close>

definition py_getitem :: "json \<Rightarrow> string \<Rightarrow> exn + json" where
  "py_getitem data k =
     (case data of
        JObj kvs \<Rightarrow> (case obj_lookup kvs k of Some v \<Rightarrow> Inr v | None \<Rightarrow> Inl (KeyError (JStr k)))
      | _ \<Rightarrow> Inl (TypeError data))"

text \<open>\<^verbatim>\<open>data[0]\<close>: the first element of a list, the first character of a string.\<close>

definition py_getitem0 :: "json \<Rightarrow> exn + json" where
  "py_getitem0 data =
     (case data of
        JArr xs \<Rightarrow> (case xs of [] \<Rightarrow> Inl (IndexError (JInt 0)) | x # _ \<Rightarrow> Inr x)
      | JStr s \<Rightarrow> (case s of [] \<Rightarrow> Inl (IndexError (JInt 0)) | c # _ \<Rightarrow> Inr (JStr [c]))
      | JObj kvs \<Rightarrow> Inl (KeyError (JInt 0))
      | _ \<Rightarrow> Inl (TypeError data))"

text \<open>\<^verbatim>\<open>v == n\<close> for an integer literal \<open>n\<close>.\<close>

definition py_eq_int :: "json \<Rightarrow> int \<Rightarrow> bool" where
  "py_eq_int v n =
     (case v of
        JInt i \<Rightarrow> i = n
      | JFloat r \<Rightarrow> r = of_int n
      | JBool b \<Rightarrow> (if b then 1 else 0) = n
      | _ \<Rightarrow> False)"

text \<open>A value inside an f-string: a string stands for itself.\<close>

definition fmt :: "env \<Rightarrow> json \<Rightarrow> string" where
  "fmt env v = (case v of JStr s \<Rightarrow> s | _ \<Rightarrow> py_str env v)"

definition fmt_opt :: "string option \<Rightarrow> string" where
  "fmt_opt t = (case t of None \<Rightarrow> ''None'' | Some s \<Rightarrow> s)"

text \<open>\<^verbatim>\<open>description.capitalize()\<close>: only a string has the method.\<close>

definition py_capitalize :: "env \<Rightarrow> json \<Rightarrow> exn + string" where
  "py_capitalize env v =
     (case v of JStr s \<Rightarrow> Inr (str_capitalize env s) | _ \<Rightarrow> Inl (AttributeError v))"

subsection \<open>The dictionary \<^verbatim>\<open>users\<close>\<close>

definition dict_get :: "(int \<times> 'u) list \<Rightarrow> int \<Rightarrow> 'u option" where
  "dict_get d k = map_of d k"

definition dict_contains :: "(int \<times> 'u) list \<Rightarrow> int \<Rightarrow> bool" where
  "dict_contains d k = (map_of d k \<noteq> None)"

text \<open>\<^verbatim>\<open>d[k] = v\<close>: an existing key keeps its place, a new key goes last.\<close>

definition dict_set :: "(int \<times> 'u) list \<Rightarrow> int \<Rightarrow> 'u \<Rightarrow> (int \<times> 'u) list" where
  "dict_set d k v = AList.update k v d"

text \<open>\<^verbatim>\<open>del d[k]\<close>, called only after \<^verbatim>\<open>k in d\<close> was checked.\<close>

definition dict_del :: "(int \<times> 'u) list \<Rightarrow> int \<Rightarrow> (int \<times> 'u) list" where
  "dict_del d k = AList.delete k d"

subsection \<open>Calls to the outside\<close>

definition tick :: "event \<Rightarrow> ('u, 'h) world \<Rightarrow> ('u, 'h) world" where
  "tick ev w = w\<lparr>clock := Suc (clock w), trace := trace w @ [ev]\<rparr>"

text \<open>\<^verbatim>\<open>requests.get(url).json()\<close>\<close>

definition http_get_json :: "env \<Rightarrow> string \<Rightarrow> (json, 'u, 'h) io" where
  "http_get_json env url w =
     (case requests_get env (clock w) url of
        RaisesRequestException s \<Rightarrow> (Inl (RequestException s), tick (HttpGet url) w)
      | RaisesOther s \<Rightarrow> (Inl (OtherException s), tick (HttpGet url) w)
      | Body data \<Rightarrow> (Inr data, tick (HttpGet url) w))"

text \<open>\<^verbatim>\<open>Translator().translate(text, src=src, dest=dest).text\<close>\<close>

definition translate :: "env \<Rightarrow> json \<Rightarrow> string option \<Rightarrow> string \<Rightarrow> (string, 'u, 'h) io" where
  "translate env txt src dest w =
     (case translator_translate env (clock w) txt src dest of
        Inl s \<Rightarrow> (Inl (OtherException s), tick (Translate txt) w)
      | Inr t \<Rightarrow> (Inr t, tick (Translate txt) w))"

text \<open>\<^verbatim>\<open>bot.send_message(chat_id, text, reply_markup=markup)\<close>\<close>

definition send_message :: "env \<Rightarrow> int \<Rightarrow> string \<Rightarrow> markup \<Rightarrow> (unit, 'u, 'h) io" where
  "send_message env c txt mk w =
     (case bot_send env (clock w) c txt of
        Some s \<Rightarrow> (Inl (OtherException s), tick (SendFailed c txt mk) w)
      | None \<Rightarrow> (Inr (), tick (Sent c txt mk) w))"

text \<open>\<^verbatim>\<open>bot.register_next_step_handler(message, h)\<close>\<close>

definition register_next_step_handler :: "int \<Rightarrow> 'h \<Rightarrow> (unit, 'u, 'h) io" where
  "register_next_step_handler c h w = (Inr (), w\<lparr>next_step := (next_step w)(c \<mapsto> h)\<rparr>)"

definition logger :: "level \<Rightarrow> string \<Rightarrow> (unit, 'u, 'h) io" where
  "logger lv txt w = (Inr (), w\<lparr>trace := trace w @ [Log lv txt]\<rparr>)"

text \<open>\<^verbatim>\<open>users[k] = v\<close> and \<^verbatim>\<open>del users[k]\<close>\<close>

definition users_set :: "int \<Rightarrow> 'u \<Rightarrow> (unit, 'u, 'h) io" where
  "users_set k v w = (Inr (), w\<lparr>users := dict_set (users w) k v\<rparr>)"

definition users_del :: "int \<Rightarrow> (unit, 'u, 'h) io" where
  "users_del k w = (Inr (), w\<lparr>users := dict_del (users w) k\<rparr>)"

section \<open>The text literals of the source\<close>

definition API_ERROR_PREFIX :: string where
  "API_ERROR_PREFIX =
       ''API error: ''"

definition UNKNOWN_ERROR :: string where
  "UNKNOWN_ERROR =
       ''Unknown error''"

definition REPORT_CITY :: string where
  "REPORT_CITY =
       ''<U+041F><U+043E><U+0433><U+043E><U+0434><U+0430> <U+0432> <U+0433><U+043E><U+0440>''
     @ ''<U+043E><U+0434><U+0435> ''"

definition REPORT_TEMPERATURE :: string where
  "REPORT_TEMPERATURE =
       '':\<newline><U+1F321> <U+0422><U+0435><U+043C><U+043F><U+0435><U+0440><U+0430>''
     @ ''<U+0442><U+0443><U+0440><U+0430>: ''"

definition REPORT_CONDITION :: string where
  "REPORT_CONDITION =
       ''<U+00B0>C\<newline><U+2601><U+FE0F> <U+0421><U+043E><U+0441><U+0442><U+043E><U+044F>''
     @ ''<U+043D><U+0438><U+0435>: ''"

definition REPORT_HUMIDITY :: string where
  "REPORT_HUMIDITY =
       ''\<newline><U+1F4A7> <U+0412><U+043B><U+0430><U+0436><U+043D><U+043E><U+0441><U+0442>''
     @ ''<U+044C>: ''"

definition REPORT_WIND :: string where
  "REPORT_WIND =
       ''%\<newline><U+1F4A8> <U+0421><U+043A><U+043E><U+0440><U+043E><U+0441><U+0442>''
     @ ''<U+044C> <U+0432><U+0435><U+0442><U+0440><U+0430>: ''"

definition REPORT_WIND_UNIT :: string where
  "REPORT_WIND_UNIT =
       '' <U+043C>/<U+0441>''"

definition CONNECTION_ERROR_PREFIX :: string where
  "CONNECTION_ERROR_PREFIX =
       ''<U+041E><U+0448><U+0438><U+0431><U+043A><U+0430> <U+0441><U+043E><U+0435><U+0434>''
     @ ''<U+0438><U+043D><U+0435><U+043D><U+0438><U+044F>: ''"

definition DATA_ERROR :: string where
  "DATA_ERROR =
       ''<U+041E><U+0448><U+0438><U+0431><U+043A><U+0430> <U+043E><U+0431><U+0440><U+0430>''
     @ ''<U+0431><U+043E><U+0442><U+043A><U+0438> <U+0434><U+0430><U+043D><U+043D><U+044B>''
     @ ''<U+0445> <U+043F><U+043E><U+0433><U+043E><U+0434><U+044B>''"

definition TRANSLATION_ERROR_PREFIX :: string where
  "TRANSLATION_ERROR_PREFIX =
       ''<U+041E><U+0448><U+0438><U+0431><U+043A><U+0430> <U+043F><U+0435><U+0440><U+0435>''
     @ ''<U+0432><U+043E><U+0434><U+0430>: ''"

definition LOG_SENT_TO :: string where
  "LOG_SENT_TO =
       ''Weather update sent to ''"

definition LOG_FOR :: string where
  "LOG_FOR =
       '' for ''"

definition WEATHER_FAILED_FOR :: string where
  "WEATHER_FAILED_FOR =
       ''<U+041D><U+0435> <U+0443><U+0434><U+0430><U+043B><U+043E><U+0441><U+044C> <U+043F>''
     @ ''<U+043E><U+043B><U+0443><U+0447><U+0438><U+0442><U+044C> <U+043F><U+043E><U+0433>''
     @ ''<U+043E><U+0434><U+0443> <U+0434><U+043B><U+044F> ''"

definition LOG_UNEXPECTED_FOR :: string where
  "LOG_UNEXPECTED_FOR =
       ''Unexpected error for ''"

definition LOG_STARTING :: string where
  "LOG_STARTING =
       ''Starting scheduled weather updates...''"

definition LOG_FAILED_UPDATE_FOR :: string where
  "LOG_FAILED_UPDATE_FOR =
       ''Failed to update for ''"

definition LOG_COMPLETED :: string where
  "LOG_COMPLETED =
       ''Scheduled updates completed''"

definition WELCOME_TEXT :: string where
  "WELCOME_TEXT =
       ''<U+1F324><U+FE0F> <U+041F><U+0440><U+0438><U+0432><U+0435><U+0442>! <U+042F> ''
     @ ''<U+0431><U+043E><U+0442> <U+043F><U+043E><U+0433><U+043E><U+0434><U+044B>. <U+0412>''
     @ ''<U+043E><U+0442> <U+0447><U+0442><U+043E> <U+044F> <U+0443><U+043C><U+0435><U+044E>:''
     @ ''\<newline>\<newline>/start - <U+043D><U+0430><U+0447><U+0430><U+0442><U+044C> ''
     @ ''<U+043F><U+043E><U+043B><U+0443><U+0447><U+0430><U+0442><U+044C> <U+043E><U+0431>''
     @ ''<U+043D><U+043E><U+0432><U+043B><U+0435><U+043D><U+0438><U+044F> <U+043F><U+043E>''
     @ ''<U+0433><U+043E><U+0434><U+044B>\<newline>/stop - <U+043E><U+0441><U+0442><U+0430>''
     @ ''<U+043D><U+043E><U+0432><U+0438><U+0442><U+044C> <U+043E><U+0431><U+043D><U+043E>''
     @ ''<U+0432><U+043B><U+0435><U+043D><U+0438><U+044F>\<newline>/change - <U+0438><U+0437>''
     @ ''<U+043C><U+0435><U+043D><U+0438><U+0442><U+044C> <U+0433><U+043E><U+0440><U+043E>''
     @ ''<U+0434>\<newline>/now - <U+043F><U+043E><U+043B><U+0443><U+0447><U+0438><U+0442>''
     @ ''<U+044C> <U+0442><U+0435><U+043A><U+0443><U+0449><U+0443><U+044E> <U+043F><U+043E>''
     @ ''<U+0433><U+043E><U+0434><U+0443>\<newline>/language - <U+0438><U+0437><U+043C>''
     @ ''<U+0435><U+043D><U+0438><U+0442><U+044C> <U+044F><U+0437><U+044B><U+043A> (ru/en)''
     @ ''\<newline>\<newline><U+041E><U+0442><U+043F><U+0440><U+0430><U+0432><U+044C> ''
     @ ''<U+043C><U+043D><U+0435> <U+043D><U+0430><U+0437><U+0432><U+0430><U+043D><U+0438>''
     @ ''<U+0435> <U+0433><U+043E><U+0440><U+043E><U+0434><U+0430>, <U+0438> <U+044F> ''
     @ ''<U+043D><U+0430><U+0447><U+043D><U+0443> <U+043F><U+0440><U+0438><U+0441><U+044B>''
     @ ''<U+043B><U+0430><U+0442><U+044C> <U+0442><U+0435><U+0431><U+0435> <U+043F><U+043E>''
     @ ''<U+0433><U+043E><U+0434><U+0443>!''"

definition ASK_CITY :: string where
  "ASK_CITY =
       ''<U+0412> <U+043A><U+0430><U+043A><U+043E><U+043C> <U+0433><U+043E><U+0440><U+043E>''
     @ ''<U+0434><U+0435> <U+0442><U+044B> <U+0445><U+043E><U+0447><U+0435><U+0448><U+044C> ''
     @ ''<U+043F><U+043E><U+043B><U+0443><U+0447><U+0430><U+0442><U+044C> <U+043F><U+043E>''
     @ ''<U+0433><U+043E><U+0434><U+0443>?''"

definition CONFIRM_CITY_1 :: string where
  "CONFIRM_CITY_1 =
       ''<U+2705> <U+041E><U+0442><U+043B><U+0438><U+0447><U+043D><U+043E>! <U+0422><U+0435>''
     @ ''<U+043F><U+0435><U+0440><U+044C> <U+044F> <U+0431><U+0443><U+0434><U+0443> <U+043F>''
     @ ''<U+0440><U+0438><U+0441><U+044B><U+043B><U+0430><U+0442><U+044C> <U+043F><U+043E>''
     @ ''<U+0433><U+043E><U+0434><U+0443> <U+0434><U+043B><U+044F> ''"

definition CONFIRM_CITY_2 :: string where
  "CONFIRM_CITY_2 =
       ''.\<newline><U+041E><U+0431><U+043D><U+043E><U+0432><U+043B><U+0435><U+043D><U+0438>''
     @ ''<U+044F> <U+0431><U+0443><U+0434><U+0443><U+0442> <U+043F><U+0440><U+0438><U+0445>''
     @ ''<U+043E><U+0434><U+0438><U+0442><U+044C> <U+043A><U+0430><U+0436><U+0434><U+044B>''
     @ ''<U+0435> ''"

definition CONFIRM_CITY_3 :: string where
  "CONFIRM_CITY_3 =
       '' <U+043C><U+0438><U+043D><U+0443><U+0442>.\<newline><U+0418><U+0441><U+043F><U+043E>''
     @ ''<U+043B><U+044C><U+0437><U+0443><U+0439> /now <U+0447><U+0442><U+043E><U+0431>''
     @ ''<U+044B> <U+043F><U+043E><U+043B><U+0443><U+0447><U+0438><U+0442><U+044C> <U+0442>''
     @ ''<U+0435><U+043A><U+0443><U+0449><U+0443><U+044E> <U+043F><U+043E><U+0433><U+043E>''
     @ ''<U+0434><U+0443>.''"

definition CITY_NOT_FOUND_1 :: string where
  "CITY_NOT_FOUND_1 =
       ''<U+274C> <U+041D><U+0435> <U+0443><U+0434><U+0430><U+043B><U+043E><U+0441><U+044C> ''
     @ ''<U+043D><U+0430><U+0439><U+0442><U+0438> <U+0433><U+043E><U+0440><U+043E><U+0434> ''
     @ [CHR 0x27]"

definition CITY_NOT_FOUND_2 :: string where
  "CITY_NOT_FOUND_2 =
       [CHR 0x27]
     @ ''. <U+041F><U+043E><U+0436><U+0430><U+043B><U+0443><U+0439><U+0441><U+0442><U+0430>, ''
     @ ''<U+043F><U+043E><U+043F><U+0440><U+043E><U+0431><U+0443><U+0439><U+0442><U+0435> ''
     @ ''<U+0435><U+0449><U+0435> <U+0440><U+0430><U+0437>.''"

definition LOG_CITY_INPUT_ERROR :: string where
  "LOG_CITY_INPUT_ERROR =
       ''Error processing city input: ''"

definition GENERIC_ERROR :: string where
  "GENERIC_ERROR =
       ''<U+26A0><U+FE0F> <U+041F><U+0440><U+043E><U+0438><U+0437><U+043E><U+0448><U+043B>''
     @ ''<U+0430> <U+043E><U+0448><U+0438><U+0431><U+043A><U+0430>. <U+041F><U+043E><U+0436>''
     @ ''<U+0430><U+043B><U+0443><U+0439><U+0441><U+0442><U+0430>, <U+043F><U+043E><U+043F>''
     @ ''<U+0440><U+043E><U+0431><U+0443><U+0439><U+0442><U+0435> <U+043F><U+043E><U+0437>''
     @ ''<U+0436><U+0435>.''"

definition UNSUBSCRIBED :: string where
  "UNSUBSCRIBED =
       ''<U+1F534> <U+0412><U+044B> <U+043E><U+0442><U+043C><U+0435><U+043D><U+0438><U+043B>''
     @ ''<U+0438> <U+043F><U+043E><U+0434><U+043F><U+0438><U+0441><U+043A><U+0443> <U+043D>''
     @ ''<U+0430> <U+043E><U+0431><U+043D><U+043E><U+0432><U+043B><U+0435><U+043D><U+0438>''
     @ ''<U+044F> <U+043F><U+043E><U+0433><U+043E><U+0434><U+044B>.''"

definition NOT_SUBSCRIBED :: string where
  "NOT_SUBSCRIBED =
       ''<U+2139><U+FE0F> <U+0412><U+044B> <U+043D><U+0435> <U+043F><U+043E><U+0434><U+043F>''
     @ ''<U+0438><U+0441><U+0430><U+043D><U+044B> <U+043D><U+0430> <U+043E><U+0431><U+043D>''
     @ ''<U+043E><U+0432><U+043B><U+0435><U+043D><U+0438><U+044F>.''"

definition SET_CITY_FIRST :: string where
  "SET_CITY_FIRST =
       ''<U+0421><U+043D><U+0430><U+0447><U+0430><U+043B><U+0430> <U+0443><U+043A><U+0430>''
     @ ''<U+0436><U+0438><U+0442><U+0435> <U+0433><U+043E><U+0440><U+043E><U+0434> <U+0441> ''
     @ ''<U+043F><U+043E><U+043C><U+043E><U+0449><U+044C><U+044E> /start''"

definition REQUESTING_WEATHER :: string where
  "REQUESTING_WEATHER =
       ''<U+23F3> <U+0417><U+0430><U+043F><U+0440><U+0430><U+0448><U+0438><U+0432><U+0430>''
     @ ''<U+044E> <U+0430><U+043A><U+0442><U+0443><U+0430><U+043B><U+044C><U+043D><U+0443>''
     @ ''<U+044E> <U+043F><U+043E><U+0433><U+043E><U+0434><U+0443>...''"

definition LOG_NOW_ERROR :: string where
  "LOG_NOW_ERROR =
       ''Error in /now command: ''"

definition NOW_FAILED :: string where
  "NOW_FAILED =
       ''<U+26A0><U+FE0F> <U+041D><U+0435> <U+0443><U+0434><U+0430><U+043B><U+043E><U+0441>''
     @ ''<U+044C> <U+043F><U+043E><U+043B><U+0443><U+0447><U+0438><U+0442><U+044C> <U+043F>''
     @ ''<U+043E><U+0433><U+043E><U+0434><U+0443>. <U+041F><U+043E><U+043F><U+0440><U+043E>''
     @ ''<U+0431><U+0443><U+0439><U+0442><U+0435> <U+043F><U+043E><U+0437><U+0436><U+0435>.''"

definition ASK_NEW_CITY :: string where
  "ASK_NEW_CITY =
       ''<U+0412><U+0432><U+0435><U+0434><U+0438><U+0442><U+0435> <U+043D><U+043E><U+0432>''
     @ ''<U+044B><U+0439> <U+0433><U+043E><U+0440><U+043E><U+0434> <U+0434><U+043B><U+044F> ''
     @ ''<U+043F><U+043E><U+043B><U+0443><U+0447><U+0435><U+043D><U+0438><U+044F> <U+043F>''
     @ ''<U+043E><U+0433><U+043E><U+0434><U+044B>:''"

definition BUTTON_RUSSIAN :: string where
  "BUTTON_RUSSIAN =
       ''<U+0420><U+0443><U+0441><U+0441><U+043A><U+0438><U+0439>''"

definition BUTTON_ENGLISH :: string where
  "BUTTON_ENGLISH =
       ''English''"

definition CHOOSE_LANGUAGE :: string where
  "CHOOSE_LANGUAGE =
       ''<U+0412><U+044B><U+0431><U+0435><U+0440><U+0438><U+0442><U+0435> <U+044F><U+0437>''
     @ ''<U+044B><U+043A> <U+0434><U+043B><U+044F> <U+043E><U+043F><U+0438><U+0441><U+0430>''
     @ ''<U+043D><U+0438><U+044F> <U+043F><U+043E><U+0433><U+043E><U+0434><U+044B>:''"

definition KEY_RUSSIAN :: string where
  "KEY_RUSSIAN =
       ''<U+0440><U+0443><U+0441><U+0441><U+043A><U+0438><U+0439>''"

definition KEY_ENGLISH :: string where
  "KEY_ENGLISH =
       ''english''"

definition BAD_LANGUAGE :: string where
  "BAD_LANGUAGE =
       ''<U+274C> <U+041D><U+0435><U+0432><U+0435><U+0440><U+043D><U+044B><U+0439> <U+0432>''
     @ ''<U+044B><U+0431><U+043E><U+0440> <U+044F><U+0437><U+044B><U+043A><U+0430>. <U+0418>''
     @ ''<U+0441><U+043F><U+043E><U+043B><U+044C><U+0437><U+0443><U+0439><U+0442><U+0435> ''
     @ ''<U+043A><U+043D><U+043E><U+043F><U+043A><U+0438>.''"

definition NOW_SET_CITY :: string where
  "NOW_SET_CITY =
       ''<U+0422><U+0435><U+043F><U+0435><U+0440><U+044C> <U+0443><U+043A><U+0430><U+0436>''
     @ ''<U+0438><U+0442><U+0435> <U+0433><U+043E><U+0440><U+043E><U+0434> <U+0441> <U+043F>''
     @ ''<U+043E><U+043C><U+043E><U+0449><U+044C><U+044E> /start''"

definition LANGUAGE_CHANGED_1 :: string where
  "LANGUAGE_CHANGED_1 =
       ''<U+1F30D> <U+042F><U+0437><U+044B><U+043A> <U+0438><U+0437><U+043C><U+0435><U+043D>''
     @ ''<U+0435><U+043D> <U+043D><U+0430> ''"

definition LANGUAGE_CHANGED_2 :: string where
  "LANGUAGE_CHANGED_2 =
       ''. <U+0421><U+043B><U+0435><U+0434><U+0443><U+044E><U+0449><U+0435><U+0435> <U+043E>''
     @ ''<U+0431><U+043D><U+043E><U+0432><U+043B><U+0435><U+043D><U+0438><U+0435> <U+0431>''
     @ ''<U+0443><U+0434><U+0435><U+0442> <U+043D><U+0430> <U+0432><U+044B><U+0431><U+0440>''
     @ ''<U+0430><U+043D><U+043D><U+043E><U+043C> <U+044F><U+0437><U+044B><U+043A><U+0435>.''"

definition UNKNOWN_COMMAND :: string where
  "UNKNOWN_COMMAND =
       ''<U+274C> <U+041D><U+0435><U+0438><U+0437><U+0432><U+0435><U+0441><U+0442><U+043D>''
     @ ''<U+0430><U+044F> <U+043A><U+043E><U+043C><U+0430><U+043D><U+0434><U+0430>. <U+0418>''
     @ ''<U+0441><U+043F><U+043E><U+043B><U+044C><U+0437><U+0443><U+0439><U+0442><U+0435> /he''
     @ ''lp <U+0434><U+043B><U+044F> <U+0441><U+043F><U+0438><U+0441><U+043A><U+0430> ''
     @ ''<U+043A><U+043E><U+043C><U+0430><U+043D><U+0434>.''"

definition V1_REPORT_1 :: string where
  "V1_REPORT_1 =
       ''<U+041F><U+043E><U+0433><U+043E><U+0434><U+0430> <U+0432> <U+0433><U+043E><U+0440>''
     @ ''<U+043E><U+0434><U+0435> ''"

definition V1_REPORT_2 :: string where
  "V1_REPORT_2 =
       '': ''"

definition V1_REPORT_3 :: string where
  "V1_REPORT_3 =
       ''<U+00B0>C, ''"

definition V1_WEATHER_FAILED :: string where
  "V1_WEATHER_FAILED =
       ''<U+041D><U+0435> <U+0443><U+0434><U+0430><U+043B><U+043E><U+0441><U+044C> <U+043F>''
     @ ''<U+043E><U+043B><U+0443><U+0447><U+0438><U+0442><U+044C> <U+043F><U+043E><U+0433>''
     @ ''<U+043E><U+0434><U+0443>.''"

definition V1_COMMANDS_MESSAGE :: string where
  "V1_COMMANDS_MESSAGE =
       ''<U+041F><U+0440><U+0438><U+0432><U+0435><U+0442>! <U+042F> <U+043C><U+043E><U+0433>''
     @ ''<U+0443> <U+043F><U+0440><U+0438><U+0441><U+044B><U+043B><U+0430><U+0442><U+044C> ''
     @ ''<U+0442><U+0435><U+0431><U+0435> <U+043F><U+043E><U+0433><U+043E><U+0434><U+0443>. ''
     @ ''<U+0412><U+043E><U+0442> <U+0434><U+043E><U+0441><U+0442><U+0443><U+043F><U+043D>''
     @ ''<U+044B><U+0435> <U+043A><U+043E><U+043C><U+0430><U+043D><U+0434><U+044B>:\<newline>''
     @ ''/start - <U+043D><U+0430><U+0447><U+0430><U+0442><U+044C> <U+043F><U+043E><U+043B>''
     @ ''<U+0443><U+0447><U+0430><U+0442><U+044C> <U+043E><U+0431><U+043D><U+043E><U+0432>''
     @ ''<U+043B><U+0435><U+043D><U+0438><U+044F> <U+043F><U+043E><U+0433><U+043E><U+0434>''
     @ ''<U+044B>.\<newline>/stop - <U+043E><U+0441><U+0442><U+0430><U+043D><U+043E><U+0432>''
     @ ''<U+0438><U+0442><U+044C> <U+043E><U+0431><U+043D><U+043E><U+0432><U+043B><U+0435>''
     @ ''<U+043D><U+0438><U+044F> <U+043F><U+043E><U+0433><U+043E><U+0434><U+044B>.''"

definition V1_ASK_CITY :: string where
  "V1_ASK_CITY =
       ''<U+0412> <U+043A><U+0430><U+043A><U+043E><U+043C> <U+0433><U+043E><U+0440><U+043E>''
     @ ''<U+0434><U+0435> <U+0442><U+044B> <U+043D><U+0430><U+0445><U+043E><U+0434><U+0438>''
     @ ''<U+0448><U+044C><U+0441><U+044F>?''"

definition V1_CONFIRM_1 :: string where
  "V1_CONFIRM_1 =
       ''<U+041E><U+0442><U+043B><U+0438><U+0447><U+043D><U+043E>! <U+0422><U+0435><U+043F>''
     @ ''<U+0435><U+0440><U+044C> <U+044F> <U+0431><U+0443><U+0434><U+0443> <U+043F><U+0440>''
     @ ''<U+0438><U+0441><U+044B><U+043B><U+0430><U+0442><U+044C> <U+043F><U+043E><U+0433>''
     @ ''<U+043E><U+0434><U+0443> <U+0434><U+043B><U+044F> <U+0433><U+043E><U+0440><U+043E>''
     @ ''<U+0434><U+0430> ''"

definition V1_CONFIRM_2 :: string where
  "V1_CONFIRM_2 =
       '' <U+043A><U+0430><U+0436><U+0434><U+044B><U+0439> <U+0447><U+0430><U+0441>.''"

definition V1_UNSUBSCRIBED :: string where
  "V1_UNSUBSCRIBED =
       ''<U+0412><U+044B> <U+043E><U+0442><U+043C><U+0435><U+043D><U+0438><U+043B><U+0438> ''
     @ ''<U+043F><U+043E><U+0434><U+043F><U+0438><U+0441><U+043A><U+0443> <U+043D><U+0430> ''
     @ ''<U+043E><U+0431><U+043D><U+043E><U+0432><U+043B><U+0435><U+043D><U+0438><U+044F> ''
     @ ''<U+043F><U+043E><U+0433><U+043E><U+0434><U+044B>.''"

definition V1_NOT_SUBSCRIBED :: string where
  "V1_NOT_SUBSCRIBED =
       ''<U+0412><U+044B> <U+043D><U+0435> <U+043F><U+043E><U+0434><U+043F><U+0438><U+0441>''
     @ ''<U+0430><U+043D><U+044B> <U+043D><U+0430> <U+043E><U+0431><U+043D><U+043E><U+0432>''
     @ ''<U+043B><U+0435><U+043D><U+0438><U+044F>.''"

section \<open>The program \<^verbatim>\<open>resultv2.py\<close>\<close>

text \<open>A value of \<^verbatim>\<open>users\<close>: the program stores only dicts with both keys.\<close>

record user_info =
  city :: string
  language :: string

datatype step = PROCESS_CITY_INPUT | PROCESS_LANGUAGE_SELECTION

definition UPDATE_INTERVAL_MINUTES :: int where
  "UPDATE_INTERVAL_MINUTES = 60"

definition DEFAULT_LANGUAGE :: string where
  "DEFAULT_LANGUAGE = ''ru''"

definition weather_url :: "env \<Rightarrow> string \<Rightarrow> string \<Rightarrow> string" where
  "weather_url env c l =
     ''http://api.openweathermap.org/data/2.5/weather?q='' @ c @ ''&appid=''
     @ WEATHER_API_KEY env @ ''&units=metric&lang='' @ l"

definition get_weather :: "env \<Rightarrow> string \<Rightarrow> string \<Rightarrow> (string, 'u, 'h) io" where
  "get_weather env c l =
     catch_io
       (bind_io (http_get_json env (weather_url env c l)) (\<lambda>data.
        bind_io (lift_io (py_get data ''cod'' JNull)) (\<lambda>cod.
        if \<not> py_eq_int cod 200 then
          bind_io (lift_io (py_get data ''message'' (JStr UNKNOWN_ERROR))) (\<lambda>error_message.
          raise_io (WeatherServiceError (API_ERROR_PREFIX @ fmt env error_message)))
        else
          bind_io (lift_io (py_getitem data ''main'')) (\<lambda>main1.
          bind_io (lift_io (py_getitem main1 ''temp'')) (\<lambda>temperature.
          bind_io (lift_io (py_getitem data ''weather'')) (\<lambda>weather.
          bind_io (lift_io (py_getitem0 weather)) (\<lambda>weather0.
          bind_io (lift_io (py_getitem weather0 ''description'')) (\<lambda>description.
          bind_io (lift_io (py_getitem data ''main'')) (\<lambda>main2.
          bind_io (lift_io (py_getitem main2 ''humidity'')) (\<lambda>humidity.
          bind_io (lift_io (py_getitem data ''wind'')) (\<lambda>wind.
          bind_io (lift_io (py_getitem wind ''speed'')) (\<lambda>wind_speed.
          bind_io (lift_io (py_capitalize env description)) (\<lambda>capitalized.
          return_io
            (REPORT_CITY @ c @ REPORT_TEMPERATURE @ fmt env temperature
             @ REPORT_CONDITION @ capitalized
             @ REPORT_HUMIDITY @ fmt env humidity
             @ REPORT_WIND @ fmt env wind_speed @ REPORT_WIND_UNIT))))))))))))))
       (\<lambda>e. case e of
               RequestException s \<Rightarrow> raise_io (WeatherServiceError (CONNECTION_ERROR_PREFIX @ s))
             | KeyError k \<Rightarrow> raise_io (WeatherServiceError DATA_ERROR)
             | IndexError k \<Rightarrow> raise_io (WeatherServiceError DATA_ERROR)
             | _ \<Rightarrow> raise_io e)"

text \<open>No function of the program calls \<open>translate_text\<close>.\<close>

definition translate_text :: "env \<Rightarrow> string \<Rightarrow> string \<Rightarrow> (string, 'u, 'h) io" where
  "translate_text env txt dest_language =
     catch_io (translate env (JStr txt) None dest_language)
       (\<lambda>e. raise_io (TranslationError (TRANSLATION_ERROR_PREFIX @ str_exn env e)))"

definition send_weather_update :: "env \<Rightarrow> int \<Rightarrow> string \<Rightarrow> string \<Rightarrow> (unit, 'u, 'h) io" where
  "send_weather_update env c cty l =
     catch_io
       (bind_io (get_weather env cty l) (\<lambda>weather.
        bind_io (send_message env c weather NoMarkup) (\<lambda>_.
        logger INFO (LOG_SENT_TO @ fmt env (JInt c) @ LOG_FOR @ cty))))
       (\<lambda>e. if is_WeatherServiceError e then
               bind_io
                 (send_message env c (WEATHER_FAILED_FOR @ cty @ '': '' @ str_exn env e) NoMarkup)
                 (\<lambda>_. logger ERROR (WEATHER_FAILED_FOR @ cty @ '': '' @ str_exn env e))
             else logger ERROR (LOG_UNEXPECTED_FOR @ fmt env (JInt c) @ '': '' @ str_exn env e))"

text \<open>The loop of \<open>send_updates_to_all_users\<close> over the copy of \<^verbatim>\<open>users\<close>.\<close>

fun updates_loop :: "env \<Rightarrow> (int \<times> user_info) list \<Rightarrow> (unit, 'u, 'h) io" where
  "updates_loop env [] = return_io ()"
| "updates_loop env ((c, user) # rest) =
     bind_io
       (catch_io (send_weather_update env c (city user) (language user))
          (\<lambda>e. logger ERROR (LOG_FAILED_UPDATE_FOR @ fmt env (JInt c) @ '': '' @ str_exn env e)))
       (\<lambda>_. updates_loop env rest)"

definition send_updates_to_all_users :: "env \<Rightarrow> (unit, user_info, 'h) io" where
  "send_updates_to_all_users env =
     bind_io (logger INFO LOG_STARTING) (\<lambda>_.
     bind_io (\<lambda>w. updates_loop env (users w) w) (\<lambda>_.
     logger INFO LOG_COMPLETED))"

definition send_welcome :: "env \<Rightarrow> message \<Rightarrow> (unit, user_info, step) io" where
  "send_welcome env m =
     bind_io (send_message env (chat_id m) WELCOME_TEXT NoMarkup) (\<lambda>_.
     bind_io (send_message env (chat_id m) ASK_CITY NoMarkup) (\<lambda>_.
     register_next_step_handler (chat_id m) PROCESS_CITY_INPUT))"

text \<open>\<^verbatim>\<open>message.text.strip()\<close>: \<^verbatim>\<open>None\<close> has no method \<^verbatim>\<open>strip\<close>.\<close>

definition text_strip :: "env \<Rightarrow> message \<Rightarrow> exn + string" where
  "text_strip env m =
     (case msg_text m of None \<Rightarrow> Inl (AttributeError JNull) | Some t \<Rightarrow> Inr (str_strip env t))"

definition process_city_input :: "env \<Rightarrow> message \<Rightarrow> (unit, user_info, step) io" where
  "process_city_input env m =
     catch_io
       (bind_io (lift_io (text_strip env m)) (\<lambda>cty.
        bind_io (get_weather env cty DEFAULT_LANGUAGE) (\<lambda>test_weather.
        bind_io (users_set (chat_id m) \<lparr>city = cty, language = DEFAULT_LANGUAGE\<rparr>) (\<lambda>_.
        bind_io
          (send_message env (chat_id m)
             (CONFIRM_CITY_1 @ cty @ CONFIRM_CITY_2 @ fmt env (JInt UPDATE_INTERVAL_MINUTES)
              @ CONFIRM_CITY_3) NoMarkup) (\<lambda>_.
        send_weather_update env (chat_id m) cty DEFAULT_LANGUAGE)))))
       (\<lambda>e. if is_WeatherServiceError e then
               bind_io
                 (send_message env (chat_id m)
                    (CITY_NOT_FOUND_1 @ fmt_opt (msg_text m) @ CITY_NOT_FOUND_2) NoMarkup) (\<lambda>_.
               register_next_step_handler (chat_id m) PROCESS_CITY_INPUT)
             else
               bind_io (logger ERROR (LOG_CITY_INPUT_ERROR @ str_exn env e)) (\<lambda>_.
               send_message env (chat_id m) GENERIC_ERROR NoMarkup))"

definition stop_updates :: "env \<Rightarrow> message \<Rightarrow> (unit, user_info, step) io" where
  "stop_updates env m w =
     (if dict_contains (users w) (chat_id m) then
        bind_io (users_del (chat_id m)) (\<lambda>_.
        send_message env (chat_id m) UNSUBSCRIBED NoMarkup) w
      else send_message env (chat_id m) NOT_SUBSCRIBED NoMarkup w)"

definition send_current_weather :: "env \<Rightarrow> message \<Rightarrow> (unit, user_info, step) io" where
  "send_current_weather env m w =
     (case dict_get (users w) (chat_id m) of
        None \<Rightarrow> send_message env (chat_id m) SET_CITY_FIRST NoMarkup w
      | Some user \<Rightarrow>
          catch_io
            (bind_io (send_message env (chat_id m) REQUESTING_WEATHER NoMarkup) (\<lambda>_.
             send_weather_update env (chat_id m) (city user) (language user)))
            (\<lambda>e. bind_io (logger ERROR (LOG_NOW_ERROR @ str_exn env e)) (\<lambda>_.
                 send_message env (chat_id m) NOW_FAILED NoMarkup)) w)"

definition change_city :: "env \<Rightarrow> message \<Rightarrow> (unit, user_info, step) io" where
  "change_city env m =
     bind_io (send_message env (chat_id m) ASK_NEW_CITY NoMarkup) (\<lambda>_.
     register_next_step_handler (chat_id m) PROCESS_CITY_INPUT)"

definition change_language :: "env \<Rightarrow> message \<Rightarrow> (unit, user_info, step) io" where
  "change_language env m =
     bind_io
       (send_message env (chat_id m) CHOOSE_LANGUAGE
          (ReplyKeyboardMarkup [BUTTON_RUSSIAN, BUTTON_ENGLISH])) (\<lambda>_.
     register_next_step_handler (chat_id m) PROCESS_LANGUAGE_SELECTION)"

definition lang_map :: "(string \<times> string) list" where
  "lang_map = [(KEY_RUSSIAN, ''ru''), (KEY_ENGLISH, ''en'')]"

definition process_language_selection :: "env \<Rightarrow> message \<Rightarrow> (unit, user_info, step) io" where
  "process_language_selection env m w =
     (case msg_text m of
        None \<Rightarrow> raise_io (AttributeError JNull) w
      | Some t \<Rightarrow>
          (case map_of lang_map (str_lower env t) of
             None \<Rightarrow> send_message env (chat_id m) BAD_LANGUAGE NoMarkup w
           | Some lang \<Rightarrow>
               (case dict_get (users w) (chat_id m) of
                  None \<Rightarrow>
                    bind_io (users_set (chat_id m) \<lparr>city = [], language = lang\<rparr>) (\<lambda>_.
                    send_message env (chat_id m) NOW_SET_CITY NoMarkup) w
                | Some user \<Rightarrow>
                    bind_io (users_set (chat_id m) (user\<lparr>language := lang\<rparr>)) (\<lambda>_.
                    send_message env (chat_id m)
                      (LANGUAGE_CHANGED_1 @ t @ LANGUAGE_CHANGED_2) ReplyKeyboardRemove) w)))"

definition handle_unknown :: "env \<Rightarrow> message \<Rightarrow> (unit, user_info, step) io" where
  "handle_unknown env m = send_message env (chat_id m) UNKNOWN_COMMAND NoMarkup"

text \<open>
  How the bot library routes an inbound message to the handlers the program registers:
  a pending next-step handler of the chat is taken off and gets the message whatever its
  text; otherwise the first registered handler whose filter matches gets it, and the
  last one (\<open>handle_unknown\<close>) matches every text message.
\<close>

definition handle_message :: "env \<Rightarrow> message \<Rightarrow> (unit, user_info, step) io" where
  "handle_message env m w =
     (case next_step w (chat_id m) of
        Some h \<Rightarrow>
          (case h of
             PROCESS_CITY_INPUT \<Rightarrow>
               process_city_input env m (w\<lparr>next_step := (next_step w)(chat_id m := None)\<rparr>)
           | PROCESS_LANGUAGE_SELECTION \<Rightarrow>
               process_language_selection env m (w\<lparr>next_step := (next_step w)(chat_id m := None)\<rparr>))
      | None \<Rightarrow>
          (case msg_text m of
             None \<Rightarrow> (Inr (), w)
           | Some t \<Rightarrow>
               (case extract_command env t of
                  None \<Rightarrow> handle_unknown env m w
                | Some cmd \<Rightarrow>
                    if cmd = ''start'' \<or> cmd = ''help'' then send_welcome env m w
                    else if cmd = ''stop'' then stop_updates env m w
                    else if cmd = ''now'' then send_current_weather env m w
                    else if cmd = ''change'' then change_city env m w
                    else if cmd = ''language'' then change_language env m w
                    else handle_unknown env m w)))"

section \<open>The program \<^verbatim>\<open>resultv1.py\<close>\<close>

record v1_user_info =
  v1_city :: string

datatype v1_step = GET_CITY

definition v1_weather_url :: "env \<Rightarrow> string \<Rightarrow> string" where
  "v1_weather_url env c =
     ''http://api.openweathermap.org/data/2.5/weather?q='' @ c @ ''&appid=''
     @ WEATHER_API_KEY env @ ''&units=metric''"

definition v1_get_weather :: "env \<Rightarrow> string \<Rightarrow> (string, 'u, 'h) io" where
  "v1_get_weather env c =
     bind_io (http_get_json env (v1_weather_url env c)) (\<lambda>data.
     bind_io (lift_io (py_get data ''cod'' JNull)) (\<lambda>cod.
     if py_eq_int cod 200 then
       bind_io (lift_io (py_getitem data ''main'')) (\<lambda>main1.
       bind_io (lift_io (py_getitem main1 ''temp'')) (\<lambda>temperature.
       bind_io (lift_io (py_getitem data ''weather'')) (\<lambda>weather.
       bind_io (lift_io (py_getitem0 weather)) (\<lambda>weather0.
       bind_io (lift_io (py_getitem weather0 ''description'')) (\<lambda>description.
       bind_io (translate env description (Some ''en'') ''ru'') (\<lambda>translated_description.
       return_io
         (V1_REPORT_1 @ c @ V1_REPORT_2 @ fmt env temperature @ V1_REPORT_3
          @ translated_description)))))))
     else return_io V1_WEATHER_FAILED))"

definition v1_send_weather_update :: "env \<Rightarrow> int \<Rightarrow> string \<Rightarrow> (unit, 'u, 'h) io" where
  "v1_send_weather_update env c cty =
     bind_io (v1_get_weather env cty) (\<lambda>weather. send_message env c weather NoMarkup)"

fun v1_updates_loop :: "env \<Rightarrow> (int \<times> v1_user_info) list \<Rightarrow> (unit, 'u, 'h) io" where
  "v1_updates_loop env [] = return_io ()"
| "v1_updates_loop env ((c, user) # rest) =
     bind_io (v1_send_weather_update env c (v1_city user)) (\<lambda>_. v1_updates_loop env rest)"

definition v1_send_updates_to_all_users :: "env \<Rightarrow> (unit, v1_user_info, 'h) io" where
  "v1_send_updates_to_all_users env w = v1_updates_loop env (users w) w"

definition v1_start :: "env \<Rightarrow> message \<Rightarrow> (unit, v1_user_info, v1_step) io" where
  "v1_start env m =
     bind_io (send_message env (chat_id m) V1_COMMANDS_MESSAGE NoMarkup) (\<lambda>_.
     bind_io (send_message env (chat_id m) V1_ASK_CITY NoMarkup) (\<lambda>_.
     register_next_step_handler (chat_id m) GET_CITY))"

definition v1_get_city :: "env \<Rightarrow> message \<Rightarrow> (unit, v1_user_info, v1_step) io" where
  "v1_get_city env m =
     bind_io (lift_io (text_strip env m)) (\<lambda>cty.
     bind_io (send_message env (chat_id m) (V1_CONFIRM_1 @ cty @ V1_CONFIRM_2) NoMarkup) (\<lambda>_.
     users_set (chat_id m) \<lparr>v1_city = cty\<rparr>))"

definition v1_stop :: "env \<Rightarrow> message \<Rightarrow> (unit, v1_user_info, v1_step) io" where
  "v1_stop env m w =
     (if dict_contains (users w) (chat_id m) then
        bind_io (users_del (chat_id m)) (\<lambda>_.
        send_message env (chat_id m) V1_UNSUBSCRIBED NoMarkup) w
      else send_message env (chat_id m) V1_NOT_SUBSCRIBED NoMarkup w)"

text \<open>The routing of the bot library for the two command handlers of \<^verbatim>\<open>resultv1.py\<close>.\<close>

definition v1_handle_message :: "env \<Rightarrow> message \<Rightarrow> (unit, v1_user_info, v1_step) io" where
  "v1_handle_message env m w =
     (case next_step w (chat_id m) of
        Some GET_CITY \<Rightarrow> v1_get_city env m (w\<lparr>next_step := (next_step w)(chat_id m := None)\<rparr>)
      | None \<Rightarrow>
          (case msg_text m of
             None \<Rightarrow> (Inr (), w)
           | Some t \<Rightarrow>
               (case extract_command env t of
                  None \<Rightarrow> (Inr (), w)
                | Some cmd \<Rightarrow>
                    if cmd = ''start'' then v1_start env m w
                    else if cmd = ''stop'' then v1_stop env m w
                    else (Inr (), w))))"

section \<open>Notions used in the statements\<close>

text \<open>The URLs fetched, the translations asked for and the messages handed to the chat
  transport, read off a list of events.\<close>

fun fetches :: "event list \<Rightarrow> string list" where
  "fetches [] = []"
| "fetches (HttpGet url # evs) = url # fetches evs"
| "fetches (_ # evs) = fetches evs"

fun translate_calls :: "event list \<Rightarrow> json list" where
  "translate_calls [] = []"
| "translate_calls (Translate t # evs) = t # translate_calls evs"
| "translate_calls (_ # evs) = translate_calls evs"

text \<open>Every attempt to send, delivered or not: the chat and the text.\<close>

fun sends :: "event list \<Rightarrow> (int \<times> string) list" where
  "sends [] = []"
| "sends (Sent c t _ # evs) = (c, t) # sends evs"
| "sends (SendFailed c t _ # evs) = (c, t) # sends evs"
| "sends (_ # evs) = sends evs"

text \<open>A statement that leaves \<^verbatim>\<open>users\<close> and the next-step handlers as they are.\<close>

definition keeps :: "('a, 'u, 'h) io \<Rightarrow> bool" where
  "keeps m = (\<forall>w. users (snd (m w)) = users w \<and> next_step (snd (m w)) = next_step w)"

text \<open>A statement that leaves \<^verbatim>\<open>users\<close> as it is.\<close>

definition keeps_users :: "('a, 'u, 'h) io \<Rightarrow> bool" where
  "keeps_users m = (\<forall>w. users (snd (m w)) = users w)"

text \<open>A statement that fetches exactly the URLs \<open>us\<close>, whether it returns or raises.\<close>

definition fetches_exactly :: "('a, 'u, 'h) io \<Rightarrow> string list \<Rightarrow> bool" where
  "fetches_exactly m us = (\<forall>w. fetches (trace (snd (m w))) = fetches (trace w) @ us)"

definition returns :: "(exn + 'a) \<times> 'w \<Rightarrow> bool" where
  "returns r = (case fst r of Inr _ \<Rightarrow> True | Inl _ \<Rightarrow> False)"

text \<open>One pass of the loop of \<open>send_updates_to_all_users\<close>.\<close>

definition attempt :: "env \<Rightarrow> int \<Rightarrow> user_info \<Rightarrow> (unit, 'u, 'h) io" where
  "attempt env c user =
     catch_io (send_weather_update env c (city user) (language user))
       (\<lambda>e. logger ERROR (LOG_FAILED_UPDATE_FOR @ fmt env (JInt c) @ '': '' @ str_exn env e))"

text \<open>The events a statement adds when it runs from \<open>w\<close>.\<close>

definition emitted :: "('a, 'u, 'h) io \<Rightarrow> ('u, 'h) world \<Rightarrow> event list" where
  "emitted m w = drop (length (trace w)) (trace (snd (m w)))"

text \<open>A statement whose result and events do not depend on the state it starts from.\<close>

definition oblivious :: "('a, 'u, 'h) io \<Rightarrow> bool" where
  "oblivious m = (\<exists>r evs. \<forall>w. fst (m w) = r \<and> trace (snd (m w)) = trace w @ evs)"

text \<open>A weather endpoint that answers a request the same way whenever it is made.\<close>

definition stable_weather :: "env \<Rightarrow> bool" where
  "stable_weather env = (\<forall>t t'. requests_get env t = requests_get env t')"

text \<open>The same of the translator and of the chat transport as well.\<close>

definition stable_outside :: "env \<Rightarrow> bool" where
  "stable_outside env =
     (stable_weather env
      \<and> (\<forall>t t'. translator_translate env t = translator_translate env t'
                \<and> bot_send env t = bot_send env t'))"

text \<open>
  What one pass of the loop of \<open>send_updates_to_all_users\<close> hands to the chat
  transport, by the outcome of its fetch: the report, the failure message for a
  \<open>WeatherServiceError\<close>, nothing for any other exception.
\<close>

definition pass_sends :: "env \<Rightarrow> int \<Rightarrow> user_info \<Rightarrow> ('u, 'h) world \<Rightarrow> (int \<times> string) list" where
  "pass_sends env c user w =
     (case fst (get_weather env (city user) (language user) w) of
        Inr report \<Rightarrow> [(c, report)]
      | Inl e \<Rightarrow>
          if is_WeatherServiceError e
          then [(c, WEATHER_FAILED_FOR @ city user @ '': '' @ str_exn env e)]
          else [])"

text \<open>A statement that leaves the whole state as it is.\<close>

definition pure_io :: "('a, 'u, 'h) io \<Rightarrow> bool" where
  "pure_io m = (\<forall>w. snd (m w) = w)"

section \<open>Concrete environments and states\<close>

text \<open>Lower case for ASCII letters, as \<^verbatim>\<open>str.lower\<close> on ASCII text.\<close>

definition ascii_lower :: "string \<Rightarrow> string" where
  "ascii_lower s =
     map (\<lambda>c. if 65 \<le> (of_char c :: nat) \<and> (of_char c :: nat) \<le> 90
               then char_of ((of_char c :: nat) + 32) else c) s"

text \<open>The command of a text that is one word: the text after its slash.\<close>

definition one_word_command :: "string \<Rightarrow> string option" where
  "one_word_command t = (case t of [] \<Rightarrow> None | c # cmd \<Rightarrow> if c = CHR ''/'' then Some cmd else None)"

definition report_body :: json where
  "report_body =
     JObj [(''cod'', JInt 200),
           (''main'', JObj [(''temp'', JInt 5), (''humidity'', JInt 80)]),
           (''weather'', JArr [JObj [(''description'', JStr ''clear sky'')]]),
           (''wind'', JObj [(''speed'', JInt 3)])]"

definition not_found_body :: json where
  "not_found_body = JObj [(''cod'', JStr ''404''), (''message'', JStr ''city not found'')]"

text \<open>Every service answers: the weather endpoint with a full report.\<close>

definition env_ok :: env where
  "env_ok =
     \<lparr>WEATHER_API_KEY = ''KEY'',
      requests_get = (\<lambda>t url. Body report_body),
      translator_translate = (\<lambda>t x src dest. Inr ''yasno''),
      bot_send = (\<lambda>t c x. None),
      str_strip = (\<lambda>s. s),
      str_lower = ascii_lower,
      str_capitalize = (\<lambda>s. s),
      py_str = (\<lambda>v. ''#''),
      runtime_str = (\<lambda>e. ''!''),
      extract_command = one_word_command\<rparr>"

text \<open>The weather endpoint knows no city.\<close>

definition env_404 :: env where
  "env_404 = env_ok\<lparr>requests_get := (\<lambda>t url. Body not_found_body)\<rparr>"

text \<open>The first request to the weather endpoint times out, the later ones are answered.\<close>

definition env_timeout :: env where
  "env_timeout =
     env_ok\<lparr>requests_get :=
       (\<lambda>t url. if t = 0 then RaisesRequestException ''timed out'' else Body report_body)\<rparr>"

text \<open>The translator is out of reach.\<close>

definition env_no_translator :: env where
  "env_no_translator = env_ok\<lparr>translator_translate := (\<lambda>t x src dest. Inl ''no route to host'')\<rparr>"

definition world0 :: "('u, 'h) world" where
  "world0 = \<lparr>users = [], next_step = (\<lambda>c. None), clock = 0, trace = []\<rparr>"

text \<open>Chat 7 chose English and has no city.\<close>

definition world_en :: "(user_info, step) world" where
  "world_en = world0\<lparr>users := [(7, \<lparr>city = [], language = ''en''\<rparr>)]\<rparr>"

text \<open>Two subscribers of \<^verbatim>\<open>resultv1.py\<close>.\<close>

definition v1_world2 :: "(v1_user_info, v1_step) world" where
  "v1_world2 = world0\<lparr>users := [(1, \<lparr>v1_city = ''Paris''\<rparr>), (2, \<lparr>v1_city = ''Rome''\<rparr>)]\<rparr>"

text \<open>Chat 7 was asked for its city.\<close>

definition world_asked :: "(user_info, step) world" where
  "world_asked = world0\<lparr>next_step := (\<lambda>c. None)(7 \<mapsto> PROCESS_CITY_INPUT)\<rparr>"

definition v1_world_asked :: "(v1_user_info, v1_step) world" where
  "v1_world_asked = world0\<lparr>next_step := (\<lambda>c. None)(7 \<mapsto> GET_CITY)\<rparr>"

definition msg_atlantis :: message where
  "msg_atlantis = \<lparr>chat_id = 7, msg_text = Some ''Atlantis''\<rparr>"

text \<open>Chat 7 is subscribed for a city the weather endpoint does not know.\<close>

definition world_atlantis :: "(user_info, step) world" where
  "world_atlantis = world0\<lparr>users := [(7, \<lparr>city = ''Atlantis'', language = ''ru''\<rparr>)]\<rparr>"

definition msg_now :: message where
  "msg_now = \<lparr>chat_id = 7, msg_text = Some ''/now''\<rparr>"

text \<open>The weather endpoint as it answers a request with an empty city.\<close>

definition nothing_to_geocode_body :: json where
  "nothing_to_geocode_body = JObj [(''cod'', JStr ''400''), (''message'', JStr ''Nothing to geocode'')]"

definition env_geocode :: env where
  "env_geocode =
     env_ok\<lparr>requests_get :=
       (\<lambda>t url. if url = weather_url env_ok [] ''en'' then Body nothing_to_geocode_body
                 else Body report_body)\<rparr>"

definition msg_language :: message where
  "msg_language = \<lparr>chat_id = 7, msg_text = Some ''/language''\<rparr>"

definition msg_english :: message where
  "msg_english = \<lparr>chat_id = 7, msg_text = Some ''English''\<rparr>"

text \<open>Two subscribers of \<^verbatim>\<open>resultv2.py\<close>.\<close>

definition world2 :: "(user_info, step) world" where
  "world2 =
     world0\<lparr>users := [(1, \<lparr>city = ''Paris'', language = ''ru''\<rparr>),
                        (2, \<lparr>city = ''Rome'', language = ''ru''\<rparr>)]\<rparr>"

text \<open>
  The weather endpoint and the translator answer every call alike; the chat transport
  refuses the third call made to the outside and takes every other one.
\<close>

definition env_refuse :: env where
  "env_refuse = env_ok\<lparr>bot_send := (\<lambda>t c x. if t = 2 then Some ''Too Many Requests'' else None)\<rparr>"

section \<open>Stepping through statements\<close>

lemma bind_io_Inr: "m w = (Inr x, w') \<Longrightarrow> bind_io m f w = f x w'"
  by (simp add: bind_io_def)

lemma bind_io_Inl: "m w = (Inl e, w') \<Longrightarrow> bind_io m f w = (Inl e, w')"
  by (simp add: bind_io_def)

lemma catch_io_Inr: "m w = (Inr x, w') \<Longrightarrow> catch_io m h w = (Inr x, w')"
  by (simp add: catch_io_def)

lemma catch_io_Inl: "m w = (Inl e, w') \<Longrightarrow> catch_io m h w = h e w'"
  by (simp add: catch_io_def)

lemma catch_bind_Inr: "m w = (Inr x, w') \<Longrightarrow> catch_io (bind_io m f) h w = catch_io (f x) h w'"
  by (simp add: catch_io_def bind_io_def)

lemma catch_bind_Inl: "m w = (Inl e, w') \<Longrightarrow> catch_io (bind_io m f) h w = h e w'"
  by (simp add: catch_io_def bind_io_def)

lemma lift_io_eq: "lift_io r w = (r, w)"
  by (simp add: lift_io_def)

subsection \<open>Statements that keep the store\<close>

lemma keepsD:
  "keeps m \<Longrightarrow> users (snd (m w)) = users w"
  "keeps m \<Longrightarrow> next_step (snd (m w)) = next_step w"
  by (simp_all add: keeps_def)

lemma keeps_eqD:
  assumes "keeps m" and "m w = (r, w')"
  shows "users w' = users w" and "next_step w' = next_step w"
  using keepsD[OF assms(1), of w] assms(2) by simp_all

lemma keeps_return: "keeps (return_io x)"
  by (simp add: keeps_def return_io_def)

lemma keeps_raise: "keeps (raise_io e)"
  by (simp add: keeps_def raise_io_def)

lemma keeps_lift: "keeps (lift_io r)"
  by (simp add: keeps_def lift_io_def)

lemma keeps_bind:
  assumes "keeps m" and "\<And>x. keeps (f x)"
  shows "keeps (bind_io m f)"
  unfolding keeps_def
proof (intro allI)
  fix w
  obtain r w' where mw: "m w = (r, w')" by (cases "m w")
  note k = keeps_eqD[OF assms(1) mw]
  show "users (snd (bind_io m f w)) = users w \<and> next_step (snd (bind_io m f w)) = next_step w"
  proof (cases r)
    case (Inl e)
    then show ?thesis using mw k by (simp add: bind_io_def)
  next
    case (Inr x)
    then show ?thesis using mw k keepsD[OF assms(2), of x w'] by (simp add: bind_io_def)
  qed
qed

lemma keeps_catch:
  assumes "keeps m" and "\<And>e. keeps (h e)"
  shows "keeps (catch_io m h)"
  unfolding keeps_def
proof (intro allI)
  fix w
  obtain r w' where mw: "m w = (r, w')" by (cases "m w")
  note k = keeps_eqD[OF assms(1) mw]
  show "users (snd (catch_io m h w)) = users w \<and> next_step (snd (catch_io m h w)) = next_step w"
  proof (cases r)
    case (Inl e)
    then show ?thesis using mw k keepsD[OF assms(2), of e w'] by (simp add: catch_io_def)
  next
    case (Inr x)
    then show ?thesis using mw k by (simp add: catch_io_def)
  qed
qed

lemma keeps_if: "keeps m1 \<Longrightarrow> keeps m2 \<Longrightarrow> keeps (if b then m1 else m2)"
  by simp

lemma keeps_http: "keeps (http_get_json env url)"
  by (simp add: keeps_def http_get_json_def tick_def split: http_outcome.splits)

lemma keeps_translate: "keeps (translate env t src dest)"
  by (simp add: keeps_def translate_def tick_def split: sum.splits)

lemma keeps_send: "keeps (send_message env c t mk)"
  by (simp add: keeps_def send_message_def tick_def split: option.splits)

lemma keeps_logger: "keeps (logger lv t)"
  by (simp add: keeps_def logger_def)

lemmas keeps_intros =
  keeps_return keeps_raise keeps_lift keeps_bind keeps_catch keeps_if
  keeps_http keeps_translate keeps_send keeps_logger

lemma keeps_get_weather: "keeps (get_weather env c l)"
  unfolding get_weather_def
  by (intro keeps_intros) (auto intro!: keeps_intros split: exn.splits)

lemma keeps_send_weather_update: "keeps (send_weather_update env c cty l)"
  unfolding send_weather_update_def
  by (intro keeps_intros keeps_get_weather)

lemma keeps_updates_loop: "keeps (updates_loop env us)"
  by (induction us) (auto intro!: keeps_intros keeps_send_weather_update)

lemma keeps_v1_get_weather: "keeps (v1_get_weather env c)"
  unfolding v1_get_weather_def
  by (intro keeps_intros)

lemma keeps_v1_send_weather_update: "keeps (v1_send_weather_update env c cty)"
  unfolding v1_send_weather_update_def
  by (intro keeps_intros keeps_v1_get_weather)

subsection \<open>Statements that keep \<^verbatim>\<open>users\<close>\<close>

lemma keeps_usersD: "keeps_users m \<Longrightarrow> users (snd (m w)) = users w"
  by (simp add: keeps_users_def)

lemma keeps_users_eqD: "keeps_users m \<Longrightarrow> m w = (r, w') \<Longrightarrow> users w' = users w"
  using keeps_usersD[of m w] by simp

lemma keeps_imp_keeps_users: "keeps m \<Longrightarrow> keeps_users m"
  by (simp add: keeps_def keeps_users_def)

lemma keeps_users_register: "keeps_users (register_next_step_handler c h)"
  by (simp add: keeps_users_def register_next_step_handler_def)

lemma keeps_users_bind:
  assumes "keeps_users m" and "\<And>x. keeps_users (f x)"
  shows "keeps_users (bind_io m f)"
  unfolding keeps_users_def
proof (intro allI)
  fix w
  obtain r w' where mw: "m w = (r, w')" by (cases "m w")
  note k = keeps_users_eqD[OF assms(1) mw]
  show "users (snd (bind_io m f w)) = users w"
  proof (cases r)
    case (Inl e)
    then show ?thesis using mw k by (simp add: bind_io_def)
  next
    case (Inr x)
    then show ?thesis using mw k keeps_usersD[OF assms(2), of x w'] by (simp add: bind_io_def)
  qed
qed

lemma keeps_users_catch:
  assumes "keeps_users m" and "\<And>e. keeps_users (h e)"
  shows "keeps_users (catch_io m h)"
  unfolding keeps_users_def
proof (intro allI)
  fix w
  obtain r w' where mw: "m w = (r, w')" by (cases "m w")
  note k = keeps_users_eqD[OF assms(1) mw]
  show "users (snd (catch_io m h w)) = users w"
  proof (cases r)
    case (Inl e)
    then show ?thesis using mw k keeps_usersD[OF assms(2), of e w'] by (simp add: catch_io_def)
  next
    case (Inr x)
    then show ?thesis using mw k by (simp add: catch_io_def)
  qed
qed

subsection \<open>The two usual answers of the weather endpoint\<close>

lemmas io_defs = bind_io_def catch_io_def lift_io_def return_io_def raise_io_def

lemmas json_defs = py_get_def py_getitem_def py_getitem0_def py_eq_int_def py_capitalize_def
  obj_lookup_def fmt_def

lemma get_weather_report:
  assumes "requests_get env (clock w) (weather_url env c l) = Body report_body"
  shows "get_weather env c l w =
         (Inr (REPORT_CITY @ c @ REPORT_TEMPERATURE @ py_str env (JInt 5)
               @ REPORT_CONDITION @ str_capitalize env ''clear sky''
               @ REPORT_HUMIDITY @ py_str env (JInt 80)
               @ REPORT_WIND @ py_str env (JInt 3) @ REPORT_WIND_UNIT),
          tick (HttpGet (weather_url env c l)) w)"
  unfolding get_weather_def
  by (simp add: io_defs json_defs http_get_json_def assms report_body_def)

lemma get_weather_not_found:
  assumes "requests_get env (clock w) (weather_url env c l) = Body not_found_body"
  shows "get_weather env c l w =
         (Inl (WeatherServiceError (API_ERROR_PREFIX @ ''city not found'')),
          tick (HttpGet (weather_url env c l)) w)"
  unfolding get_weather_def
  by (simp add: io_defs json_defs http_get_json_def assms not_found_body_def)

lemma returns_Inr: "m = (Inr x, w) \<Longrightarrow> returns m"
  by (simp add: returns_def)

lemma returnsE: "returns m \<Longrightarrow> \<exists>x w. m = (Inr x, w)"
  by (cases m; cases "fst m") (auto simp: returns_def)

lemma dict_get_set: "dict_get (dict_set d k v) k = Some v"
  by (simp add: dict_get_def dict_set_def update_conv')

section \<open>City registration\<close>

lemma keeps_city_tail:
  "keeps (bind_io (send_message env c t NoMarkup) (\<lambda>_. send_weather_update env c cty l))"
  by (intro keeps_intros keeps_send_weather_update)

lemma keeps_users_city_handler:
  "keeps_users (\<lambda>w. (if is_WeatherServiceError e then
               bind_io (send_message env c t NoMarkup) (\<lambda>_.
               register_next_step_handler c PROCESS_CITY_INPUT)
             else
               bind_io (logger ERROR t') (\<lambda>_.
               send_message env c GENERIC_ERROR NoMarkup)) w)"
  by (cases "is_WeatherServiceError e")
     (auto intro!: keeps_users_bind keeps_users_register keeps_imp_keeps_users[OF keeps_send]
        keeps_imp_keeps_users[OF keeps_logger])

lemma process_city_input_valid:
  assumes strip: "text_strip env m = Inr cty"
    and ok: "get_weather env cty DEFAULT_LANGUAGE w = (Inr report, w1)"
  shows "users (snd (process_city_input env m w)) =
         dict_set (users w) (chat_id m) \<lparr>city = cty, language = DEFAULT_LANGUAGE\<rparr>"
proof -
  let ?w2 = "w1\<lparr>users := dict_set (users w1) (chat_id m) \<lparr>city = cty, language = DEFAULT_LANGUAGE\<rparr>\<rparr>"
  let ?tail = "bind_io
      (send_message env (chat_id m)
         (CONFIRM_CITY_1 @ cty @ CONFIRM_CITY_2 @ fmt env (JInt UPDATE_INTERVAL_MINUTES)
          @ CONFIRM_CITY_3) NoMarkup)
      (\<lambda>_. send_weather_update env (chat_id m) cty DEFAULT_LANGUAGE)"
  let ?h = "\<lambda>e w. (if is_WeatherServiceError e then
               bind_io
                 (send_message env (chat_id m)
                    (CITY_NOT_FOUND_1 @ fmt_opt (msg_text m) @ CITY_NOT_FOUND_2) NoMarkup) (\<lambda>_.
               register_next_step_handler (chat_id m) PROCESS_CITY_INPUT)
             else
               bind_io (logger ERROR (LOG_CITY_INPUT_ERROR @ str_exn env e)) (\<lambda>_.
               send_message env (chat_id m) GENERIC_ERROR NoMarkup)) w"
  have u1: "users w1 = users w"
    using keeps_eqD(1)[OF keeps_get_weather ok] .
  have step: "process_city_input env m w = catch_io ?tail ?h ?w2"
    unfolding process_city_input_def
    by (simp add: catch_io_def bind_io_def lift_io_def strip ok users_set_def)
  have "keeps_users (catch_io ?tail ?h)"
    by (intro keeps_users_catch keeps_imp_keeps_users keeps_city_tail keeps_users_city_handler)
  then have "users (snd (catch_io ?tail ?h ?w2)) = users ?w2"
    by (rule keeps_usersD)
  then show ?thesis using step u1 by simp
qed

lemma handle_message_awaiting_city:
  "next_step w (chat_id m) = Some PROCESS_CITY_INPUT \<Longrightarrow>
   handle_message env m w =
   process_city_input env m (w\<lparr>next_step := (next_step w)(chat_id m := None)\<rparr>)"
  by (simp add: handle_message_def)

text \<open>
  C10. In \<^verbatim>\<open>resultv2.py\<close>, a chat that awaits a city (after \<^verbatim>\<open>/start\<close>, \<^verbatim>\<open>/help\<close> or
  \<^verbatim>\<open>/change\<close>) and sends a city the validating fetch accepts is stored with that city and
  the language \<^verbatim>\<open>'ru'\<close>, whatever record, and so whatever language, the chat had before.
\<close>

theorem city_registration_resets_language:
  assumes "next_step w (chat_id m) = Some PROCESS_CITY_INPUT"
    and "text_strip env m = Inr cty"
    and "returns (get_weather env cty DEFAULT_LANGUAGE
           (w\<lparr>next_step := (next_step w)(chat_id m := None)\<rparr>))"
  shows "dict_get (users (snd (handle_message env m w))) (chat_id m) =
         Some \<lparr>city = cty, language = ''ru''\<rparr>"
proof -
  let ?w = "w\<lparr>next_step := (next_step w)(chat_id m := None)\<rparr>"
  obtain report w1 where ok: "get_weather env cty DEFAULT_LANGUAGE ?w = (Inr report, w1)"
    using returnsE[OF assms(3)] by blast
  have "users (snd (process_city_input env m ?w)) =
        dict_set (users ?w) (chat_id m) \<lparr>city = cty, language = DEFAULT_LANGUAGE\<rparr>"
    by (rule process_city_input_valid[OF assms(2) ok])
  then show ?thesis
    by (simp add: handle_message_awaiting_city[OF assms(1)] dict_get_set DEFAULT_LANGUAGE_def)
qed

theorem city_registration_resets_language_witness:
  "next_step (snd (change_city env_ok \<lparr>chat_id = 7, msg_text = Some ''/change''\<rparr> world_en)) 7
     = Some PROCESS_CITY_INPUT
   \<and> dict_get (users (snd (change_city env_ok \<lparr>chat_id = 7, msg_text = Some ''/change''\<rparr> world_en))) 7
     = Some \<lparr>city = [], language = ''en''\<rparr>
   \<and> dict_get (users (snd (handle_message env_ok \<lparr>chat_id = 7, msg_text = Some ''Paris''\<rparr>
        (snd (change_city env_ok \<lparr>chat_id = 7, msg_text = Some ''/change''\<rparr> world_en))))) 7
     = Some \<lparr>city = ''Paris'', language = ''ru''\<rparr>"
proof -
  let ?m = "\<lparr>chat_id = 7, msg_text = Some ''Paris''\<rparr>"
  let ?w = "snd (change_city env_ok \<lparr>chat_id = 7, msg_text = Some ''/change''\<rparr> world_en)"
  have w: "?w = \<lparr>users = [(7, \<lparr>city = [], language = ''en''\<rparr>)],
                 next_step = (\<lambda>c. None)(7 \<mapsto> PROCESS_CITY_INPUT), clock = 1,
                 trace = [Sent 7 ASK_NEW_CITY NoMarkup]\<rparr>"
    by (simp add: change_city_def io_defs send_message_def register_next_step_handler_def
        tick_def env_ok_def world_en_def world0_def)
  have h1: "next_step ?w (chat_id ?m) = Some PROCESS_CITY_INPUT"
    by (simp add: w)
  have h2: "text_strip env_ok ?m = Inr ''Paris''"
    by (simp add: text_strip_def env_ok_def)
  have h3: "returns (get_weather env_ok ''Paris'' DEFAULT_LANGUAGE
              (?w\<lparr>next_step := (next_step ?w)(chat_id ?m := None)\<rparr>))"
    by (rule returns_Inr, rule get_weather_report) (simp add: env_ok_def)
  from city_registration_resets_language[OF h1 h2 h3] h1 show ?thesis
    by (simp add: w dict_get_def)
qed

section \<open>Unsubscribing\<close>

lemma dict_get_del: "dict_get (dict_del d k) k = None"
  by (simp add: dict_get_def dict_del_def delete_conv')

lemma dict_contains_set: "dict_contains (dict_set d k v) k"
  by (simp add: dict_contains_def dict_set_def update_conv')

lemma users_send_message: "users (snd (send_message env c t mk w)) = users w"
  using keepsD(1)[OF keeps_send] .

lemma send_message_accepted:
  "bot_send env (clock w) c t = None \<Longrightarrow> send_message env c t mk w = (Inr (), tick (Sent c t mk) w)"
  by (simp add: send_message_def)

lemma stop_updates_subscribed:
  assumes "dict_contains (users w) (chat_id m)"
  shows "stop_updates env m w =
         send_message env (chat_id m) UNSUBSCRIBED NoMarkup
           (w\<lparr>users := dict_del (users w) (chat_id m)\<rparr>)"
  using assms by (simp add: stop_updates_def bind_io_def users_del_def)

lemma stop_updates_absent:
  assumes "\<not> dict_contains (users w) (chat_id m)"
  shows "stop_updates env m w = send_message env (chat_id m) NOT_SUBSCRIBED NoMarkup w"
  using assms by (simp add: stop_updates_def)

lemma v1_stop_subscribed:
  assumes "dict_contains (users w) (chat_id m)"
  shows "v1_stop env m w =
         send_message env (chat_id m) V1_UNSUBSCRIBED NoMarkup
           (w\<lparr>users := dict_del (users w) (chat_id m)\<rparr>)"
  using assms by (simp add: v1_stop_def bind_io_def users_del_def)

lemma v1_stop_absent:
  assumes "\<not> dict_contains (users w) (chat_id m)"
  shows "v1_stop env m w = send_message env (chat_id m) V1_NOT_SUBSCRIBED NoMarkup w"
  using assms by (simp add: v1_stop_def)

lemma process_city_input_registers:
  assumes "text_strip env m = Inr cty" and "returns (get_weather env cty DEFAULT_LANGUAGE w)"
  shows "dict_contains (users (snd (process_city_input env m w))) (chat_id m)"
proof -
  obtain report w1 where ok: "get_weather env cty DEFAULT_LANGUAGE w = (Inr report, w1)"
    using returnsE[OF assms(2)] by blast
  show ?thesis
    by (simp add: process_city_input_valid[OF assms(1) ok] dict_contains_set)
qed

lemma v1_get_city_registers:
  assumes "text_strip env m = Inr cty"
    and "bot_send env (clock w) (chat_id m) (V1_CONFIRM_1 @ cty @ V1_CONFIRM_2) = None"
  shows "users (snd (v1_get_city env m w)) = dict_set (users w) (chat_id m) \<lparr>v1_city = cty\<rparr>"
  by (simp add: v1_get_city_def io_defs assms send_message_accepted users_set_def tick_def)

text \<open>
  C7. In both programs: \<^verbatim>\<open>/stop\<close> for a chat that is in \<^verbatim>\<open>users\<close>, as it is after a
  successful city registration, deletes the record, so that a lookup of the chat yields
  nothing, and replies with the confirmation of the unsubscription. \<^verbatim>\<open>/stop\<close> for a chat that
  is not in \<^verbatim>\<open>users\<close> leaves \<^verbatim>\<open>users\<close> as it is and replies that the chat is not
  subscribed; it does nothing but send that reply, so it returns normally whenever the
  transport takes the reply, and no lookup of the missing key can raise.
\<close>

theorem stop_after_registration_and_when_absent:
  "(text_strip env m0 = Inr cty \<and> returns (get_weather env cty DEFAULT_LANGUAGE w0)
      \<longrightarrow> dict_contains (users (snd (process_city_input env m0 w0))) (chat_id m0))
   \<and> (dict_contains (users w) (chat_id m)
      \<longrightarrow> stop_updates env m w =
            send_message env (chat_id m) UNSUBSCRIBED NoMarkup
              (w\<lparr>users := dict_del (users w) (chat_id m)\<rparr>)
          \<and> dict_get (users (snd (stop_updates env m w))) (chat_id m) = None)
   \<and> (\<not> dict_contains (users w) (chat_id m)
      \<longrightarrow> stop_updates env m w = send_message env (chat_id m) NOT_SUBSCRIBED NoMarkup w
          \<and> users (snd (stop_updates env m w)) = users w
          \<and> (bot_send env (clock w) (chat_id m) NOT_SUBSCRIBED = None
               \<longrightarrow> fst (stop_updates env m w) = Inr ()))
   \<and> (text_strip env m1 = Inr cty1
        \<and> bot_send env (clock v0) (chat_id m1) (V1_CONFIRM_1 @ cty1 @ V1_CONFIRM_2) = None
      \<longrightarrow> dict_contains (users (snd (v1_get_city env m1 v0))) (chat_id m1))
   \<and> (dict_contains (users v) (chat_id m)
      \<longrightarrow> v1_stop env m v =
            send_message env (chat_id m) V1_UNSUBSCRIBED NoMarkup
              (v\<lparr>users := dict_del (users v) (chat_id m)\<rparr>)
          \<and> dict_get (users (snd (v1_stop env m v))) (chat_id m) = None)
   \<and> (\<not> dict_contains (users v) (chat_id m)
      \<longrightarrow> v1_stop env m v = send_message env (chat_id m) V1_NOT_SUBSCRIBED NoMarkup v
          \<and> users (snd (v1_stop env m v)) = users v
          \<and> (bot_send env (clock v) (chat_id m) V1_NOT_SUBSCRIBED = None
               \<longrightarrow> fst (v1_stop env m v) = Inr ()))"
proof (intro conjI impI)
  show "dict_contains (users (snd (process_city_input env m0 w0))) (chat_id m0)"
    if "text_strip env m0 = Inr cty \<and> returns (get_weather env cty DEFAULT_LANGUAGE w0)"
    using that process_city_input_registers by blast
  show "dict_contains (users (snd (v1_get_city env m1 v0))) (chat_id m1)"
    if "text_strip env m1 = Inr cty1
        \<and> bot_send env (clock v0) (chat_id m1) (V1_CONFIRM_1 @ cty1 @ V1_CONFIRM_2) = None"
    using that by (simp add: v1_get_city_registers dict_contains_set)
qed (simp_all add: stop_updates_subscribed stop_updates_absent v1_stop_subscribed v1_stop_absent
      users_send_message dict_get_del send_message_accepted)

theorem stop_after_registration_and_when_absent_witness:
  "text_strip env_ok \<lparr>chat_id = 7, msg_text = Some ''Paris''\<rparr> = Inr ''Paris''
   \<and> returns (get_weather env_ok ''Paris'' DEFAULT_LANGUAGE (world0 :: (user_info, step) world))
   \<and> dict_contains (users (snd (process_city_input env_ok \<lparr>chat_id = 7, msg_text = Some ''Paris''\<rparr> world0))) 7
   \<and> dict_get (users (snd (stop_updates env_ok \<lparr>chat_id = 7, msg_text = Some ''/stop''\<rparr>
        (snd (process_city_input env_ok \<lparr>chat_id = 7, msg_text = Some ''Paris''\<rparr> world0))))) 7 = None
   \<and> \<not> dict_contains (users (world0 :: (user_info, step) world)) 7
   \<and> stop_updates env_ok \<lparr>chat_id = 7, msg_text = Some ''/stop''\<rparr> world0
       = (Inr (), tick (Sent 7 NOT_SUBSCRIBED NoMarkup) world0)
   \<and> dict_contains (users (snd (v1_get_city env_ok \<lparr>chat_id = 7, msg_text = Some ''Paris''\<rparr> world0))) 7
   \<and> dict_get (users (snd (v1_stop env_ok \<lparr>chat_id = 7, msg_text = Some ''/stop''\<rparr>
        (snd (v1_get_city env_ok \<lparr>chat_id = 7, msg_text = Some ''Paris''\<rparr> world0))))) 7 = None
   \<and> \<not> dict_contains (users (world0 :: (v1_user_info, v1_step) world)) 7
   \<and> v1_stop env_ok \<lparr>chat_id = 7, msg_text = Some ''/stop''\<rparr> world0
       = (Inr (), tick (Sent 7 V1_NOT_SUBSCRIBED NoMarkup) world0)"
proof -
  let ?reg = "\<lparr>chat_id = 7, msg_text = Some ''Paris''\<rparr>"
  let ?stop = "\<lparr>chat_id = 7, msg_text = Some ''/stop''\<rparr>"
  let ?W = "snd (process_city_input env_ok ?reg world0)"
  let ?V = "snd (v1_get_city env_ok ?reg world0)"
  have strip: "text_strip env_ok ?reg = Inr ''Paris''"
    by (simp add: text_strip_def env_ok_def)
  have ok: "returns (get_weather env_ok ''Paris'' DEFAULT_LANGUAGE (world0 :: (user_info, step) world))"
    by (rule returns_Inr, rule get_weather_report) (simp add: env_ok_def)
  have sent: "bot_send env_ok t c x = None" for t c x
    by (simp add: env_ok_def)
  have e2: "\<not> dict_contains (users (world0 :: (user_info, step) world)) 7"
    by (simp add: dict_contains_def world0_def)
  have e1: "\<not> dict_contains (users (world0 :: (v1_user_info, v1_step) world)) 7"
    by (simp add: dict_contains_def world0_def)
  note T = stop_after_registration_and_when_absent
      [where env = env_ok and ?m0.0 = ?reg and cty = "''Paris''" and ?w0.0 = world0
        and m = ?stop and ?m1.0 = ?reg and ?cty1.0 = "''Paris''" and ?v0.0 = world0]
  note T1 = T[where w = ?W and v = ?V]
  note T2 = T[where w = world0 and v = world0]
  have a: "dict_contains (users ?W) 7"
    using T1 strip ok by simp
  have b: "dict_contains (users ?V) 7"
    using T1 strip sent by simp
  have c: "dict_get (users (snd (stop_updates env_ok ?stop ?W))) 7 = None"
    using T1 a by (simp add: users_send_message dict_get_del)
  have d: "dict_get (users (snd (v1_stop env_ok ?stop ?V))) 7 = None"
    using T1 b by (simp add: users_send_message dict_get_del)
  have e: "stop_updates env_ok ?stop world0 = (Inr (), tick (Sent 7 NOT_SUBSCRIBED NoMarkup) world0)"
    using T2 e2 by (simp add: send_message_accepted sent)
  have f: "v1_stop env_ok ?stop world0 = (Inr (), tick (Sent 7 V1_NOT_SUBSCRIBED NoMarkup) world0)"
    using T2 e1 by (simp add: send_message_accepted sent)
  show ?thesis
    using strip ok a b c d e f e1 e2 by simp
qed

section \<open>The broadcast\<close>

lemma fetches_append: "fetches (xs @ ys) = fetches xs @ fetches ys"
  by (induction xs rule: fetches.induct) simp_all

lemma fetches_exactlyD:
  "fetches_exactly m us \<Longrightarrow> fetches (trace (snd (m w))) = fetches (trace w) @ us"
  by (simp add: fetches_exactly_def)

lemma fetches_exactly_eqD:
  "fetches_exactly m us \<Longrightarrow> m w = (r, w') \<Longrightarrow> fetches (trace w') = fetches (trace w) @ us"
  using fetches_exactlyD[of m us w] by simp

lemma fetches_return: "fetches_exactly (return_io x) []"
  by (simp add: fetches_exactly_def return_io_def)

lemma fetches_raise: "fetches_exactly (raise_io e) []"
  by (simp add: fetches_exactly_def raise_io_def)

lemma fetches_lift: "fetches_exactly (lift_io r) []"
  by (simp add: fetches_exactly_def lift_io_def)

lemma fetches_logger: "fetches_exactly (logger lv t) []"
  by (simp add: fetches_exactly_def logger_def fetches_append)

lemma fetches_send: "fetches_exactly (send_message env c t mk) []"
  by (simp add: fetches_exactly_def send_message_def tick_def fetches_append split: option.splits)

lemma fetches_http: "fetches_exactly (http_get_json env url) [url]"
  by (simp add: fetches_exactly_def http_get_json_def tick_def fetches_append
      split: http_outcome.splits)

lemma fetches_if:
  "fetches_exactly m1 us \<Longrightarrow> fetches_exactly m2 us \<Longrightarrow> fetches_exactly (if b then m1 else m2) us"
  by simp

text \<open>A statement followed by statements that fetch nothing.\<close>

lemma fetches_bind_quiet:
  assumes "fetches_exactly m us" and "\<And>x. fetches_exactly (f x) []"
  shows "fetches_exactly (bind_io m f) us"
  unfolding fetches_exactly_def
proof (intro allI)
  fix w
  obtain r w' where mw: "m w = (r, w')" by (cases "m w")
  note k = fetches_exactly_eqD[OF assms(1) mw]
  show "fetches (trace (snd (bind_io m f w))) = fetches (trace w) @ us"
  proof (cases r)
    case (Inl e)
    then show ?thesis using mw k by (simp add: bind_io_def)
  next
    case (Inr x)
    then show ?thesis using mw k fetches_exactlyD[OF assms(2), of x w'] by (simp add: bind_io_def)
  qed
qed

lemma fetches_catch_quiet:
  assumes "fetches_exactly m us" and "\<And>e. fetches_exactly (h e) []"
  shows "fetches_exactly (catch_io m h) us"
  unfolding fetches_exactly_def
proof (intro allI)
  fix w
  obtain r w' where mw: "m w = (r, w')" by (cases "m w")
  note k = fetches_exactly_eqD[OF assms(1) mw]
  show "fetches (trace (snd (catch_io m h w))) = fetches (trace w) @ us"
  proof (cases r)
    case (Inl e)
    then show ?thesis using mw k fetches_exactlyD[OF assms(2), of e w'] by (simp add: catch_io_def)
  next
    case (Inr x)
    then show ?thesis using mw k by (simp add: catch_io_def)
  qed
qed

lemmas quiet_intros =
  fetches_return fetches_raise fetches_lift fetches_logger fetches_send fetches_if
  fetches_bind_quiet fetches_catch_quiet

lemma fetches_get_weather: "fetches_exactly (get_weather env c l) [weather_url env c l]"
  unfolding get_weather_def
  by (intro fetches_catch_quiet fetches_bind_quiet fetches_http)
     (auto intro!: quiet_intros split: exn.splits)

lemma fetches_send_weather_update:
  "fetches_exactly (send_weather_update env c cty l) [weather_url env cty l]"
  unfolding send_weather_update_def
  by (intro fetches_catch_quiet fetches_bind_quiet fetches_get_weather)
     (auto intro!: quiet_intros)

lemma fetches_attempt:
  "fetches_exactly (attempt env c user) [weather_url env (city user) (language user)]"
  unfolding attempt_def
  by (intro fetches_catch_quiet fetches_send_weather_update quiet_intros)

subsection \<open>What a pass of the loop can raise\<close>

lemma returns_logger: "returns (logger lv t w)"
  by (simp add: returns_def logger_def)

lemma attempt_returns: "returns (attempt env c user w)"
proof -
  obtain r w' where s: "send_weather_update env c (city user) (language user) w = (r, w')"
    by (cases "send_weather_update env c (city user) (language user) w")
  show ?thesis
    by (cases r) (simp_all add: attempt_def catch_io_def s returns_def logger_def)
qed

lemma attempt_keeps: "keeps (attempt env c user)"
  unfolding attempt_def by (intro keeps_intros keeps_send_weather_update)

lemma updates_loop_step:
  "updates_loop env ((c, user) # rest) w = updates_loop env rest (snd (attempt env c user w))"
proof -
  obtain x w' where a: "attempt env c user w = (Inr x, w')"
    using returnsE[OF attempt_returns] by blast
  have "updates_loop env ((c, user) # rest) w = bind_io (attempt env c user) (\<lambda>_. updates_loop env rest) w"
    by (simp add: attempt_def)
  then show ?thesis
    by (simp add: bind_io_def a)
qed

lemma updates_loop_returns: "returns (updates_loop env us w)"
proof (induction us arbitrary: w)
  case Nil
  show ?case by (simp add: return_io_def returns_def)
next
  case (Cons p us)
  obtain c user where p: "p = (c, user)" by (cases p)
  show ?case unfolding p updates_loop_step by (rule Cons.IH)
qed

lemma updates_loop_fetches:
  "fetches (trace (snd (updates_loop env us w))) =
   fetches (trace w) @ map (\<lambda>(c, user). weather_url env (city user) (language user)) us"
proof (induction us arbitrary: w)
  case Nil
  show ?case by (simp add: return_io_def)
next
  case (Cons p us)
  obtain c user where p: "p = (c, user)" by (cases p)
  show ?case unfolding p updates_loop_step
    by (simp add: Cons.IH fetches_exactlyD[OF fetches_attempt])
qed

lemma send_updates_to_all_users_eq:
  "send_updates_to_all_users env w =
   logger INFO LOG_COMPLETED
     (snd (updates_loop env (users w) (snd (logger INFO LOG_STARTING w))))"
proof -
  let ?w1 = "snd (logger INFO LOG_STARTING w)"
  have u: "users ?w1 = users w" by (simp add: logger_def)
  obtain x w2 where l: "updates_loop env (users w) ?w1 = (Inr x, w2)"
    using returnsE[OF updates_loop_returns] by blast
  show ?thesis
    unfolding send_updates_to_all_users_def
    by (simp add: bind_io_def logger_def l[unfolded logger_def, simplified])
qed

subsection \<open>The loop of \<^verbatim>\<open>resultv1.py\<close>\<close>

lemma v1_get_weather_not_200:
  assumes "requests_get env (clock v) (v1_weather_url env cty) = Body (JObj kvs)"
    and "py_get (JObj kvs) ''cod'' JNull = Inr cod" and "\<not> py_eq_int cod 200"
  shows "v1_get_weather env cty v =
         (Inr V1_WEATHER_FAILED, tick (HttpGet (v1_weather_url env cty)) v)"
  unfolding v1_get_weather_def
  by (simp add: io_defs http_get_json_def assms)

lemma v1_get_weather_request_exception:
  assumes "requests_get env (clock v) (v1_weather_url env cty) = RaisesRequestException s"
  shows "v1_get_weather env cty v =
         (Inl (RequestException s), tick (HttpGet (v1_weather_url env cty)) v)"
  unfolding v1_get_weather_def
  by (simp add: io_defs http_get_json_def assms)

lemma v1_updates_loop_continue:
  assumes "v1_send_weather_update env c (v1_city user) v = (Inr (), v')"
  shows "v1_updates_loop env ((c, user) # rest) v = v1_updates_loop env rest v'"
  by (simp add: bind_io_def assms)

lemma v1_updates_loop_abort:
  assumes "v1_send_weather_update env c (v1_city user) v = (Inl e, v')"
  shows "v1_updates_loop env ((c, user) # rest) v = (Inl e, v')"
  by (simp add: bind_io_def assms)

section \<open>Two broadcasts in a row\<close>

lemma obliviousI:
  assumes "\<And>w. fst (m w) = r" and "\<And>w. trace (snd (m w)) = trace w @ evs"
  shows "oblivious m"
  unfolding oblivious_def using assms by blast

lemma oblivious_emitted: "oblivious m \<Longrightarrow> emitted m w = emitted m w'"
  by (auto simp: oblivious_def emitted_def)

lemma oblivious_return: "oblivious (return_io x)"
  by (rule obliviousI[where r = "Inr x" and evs = "[]"]) (simp_all add: return_io_def)

lemma oblivious_raise: "oblivious (raise_io e)"
  by (rule obliviousI[where r = "Inl e" and evs = "[]"]) (simp_all add: raise_io_def)

lemma oblivious_lift: "oblivious (lift_io r)"
  by (rule obliviousI[where r = r and evs = "[]"]) (simp_all add: lift_io_def)

lemma oblivious_logger: "oblivious (logger lv t)"
  by (rule obliviousI[where r = "Inr ()" and evs = "[Log lv t]"]) (simp_all add: logger_def)

lemma stable_outside_weather: "stable_outside env \<Longrightarrow> stable_weather env"
  by (simp add: stable_outside_def)

lemma stable_requests: "stable_weather env \<Longrightarrow> requests_get env t = requests_get env 0"
  and stable_translate: "stable_outside env \<Longrightarrow> translator_translate env t = translator_translate env 0"
  and stable_send: "stable_outside env \<Longrightarrow> bot_send env t = bot_send env 0"
  by (simp_all add: stable_weather_def stable_outside_def)

lemma oblivious_http:
  assumes "stable_weather env"
  shows "oblivious (http_get_json env url)"
proof (rule obliviousI[where evs = "[HttpGet url]"
        and r = "case requests_get env 0 url of
                   RaisesRequestException s \<Rightarrow> Inl (RequestException s)
                 | RaisesOther s \<Rightarrow> Inl (OtherException s)
                 | Body data \<Rightarrow> Inr data"])
  fix w :: "('a, 'b) world"
  show "fst (http_get_json env url w) =
        (case requests_get env 0 url of
           RaisesRequestException s \<Rightarrow> Inl (RequestException s)
         | RaisesOther s \<Rightarrow> Inl (OtherException s)
         | Body data \<Rightarrow> Inr data)"
    using stable_requests[OF assms, of "clock w"]
    by (simp add: http_get_json_def split: http_outcome.splits)
  show "trace (snd (http_get_json env url w)) = trace w @ [HttpGet url]"
    by (simp add: http_get_json_def tick_def split: http_outcome.splits)
qed

lemma oblivious_translate:
  assumes "stable_outside env"
  shows "oblivious (translate env t src dest)"
proof (rule obliviousI[where evs = "[Translate t]"
        and r = "case translator_translate env 0 t src dest of
                   Inl s \<Rightarrow> Inl (OtherException s) | Inr x \<Rightarrow> Inr x"])
  fix w :: "('a, 'b) world"
  show "fst (translate env t src dest w) =
        (case translator_translate env 0 t src dest of
           Inl s \<Rightarrow> Inl (OtherException s) | Inr x \<Rightarrow> Inr x)"
    using stable_translate[OF assms, of "clock w"]
    by (simp add: translate_def split: sum.splits)
  show "trace (snd (translate env t src dest w)) = trace w @ [Translate t]"
    by (simp add: translate_def tick_def split: sum.splits)
qed

lemma oblivious_send:
  assumes "stable_outside env"
  shows "oblivious (send_message env c t mk)"
proof (rule obliviousI[where
        evs = "case bot_send env 0 c t of Some s \<Rightarrow> [SendFailed c t mk] | None \<Rightarrow> [Sent c t mk]"
        and r = "case bot_send env 0 c t of Some s \<Rightarrow> Inl (OtherException s) | None \<Rightarrow> Inr ()"])
  fix w :: "('a, 'b) world"
  show "fst (send_message env c t mk w) =
        (case bot_send env 0 c t of Some s \<Rightarrow> Inl (OtherException s) | None \<Rightarrow> Inr ())"
    using stable_send[OF assms, of "clock w"]
    by (simp add: send_message_def split: option.splits)
  show "trace (snd (send_message env c t mk w)) =
        trace w @ (case bot_send env 0 c t of Some s \<Rightarrow> [SendFailed c t mk] | None \<Rightarrow> [Sent c t mk])"
    using stable_send[OF assms, of "clock w"]
    by (simp add: send_message_def tick_def split: option.splits)
qed

lemma oblivious_bind:
  assumes "oblivious m" and "\<And>x. oblivious (f x)"
  shows "oblivious (bind_io m f)"
proof -
  obtain r evs where m: "\<And>w. fst (m w) = r" "\<And>w. trace (snd (m w)) = trace w @ evs"
    using assms(1) unfolding oblivious_def by blast
  show ?thesis
  proof (cases r)
    case (Inl e)
    have "bind_io m f w = (Inl e, snd (m w))" for w
      using m(1)[of w] Inl by (cases "m w") (simp add: bind_io_def)
    then show ?thesis
      by (intro obliviousI[where r = "Inl e" and evs = evs]) (simp_all add: m(2))
  next
    case (Inr x)
    obtain r2 evs2 where f: "\<And>w. fst (f x w) = r2" "\<And>w. trace (snd (f x w)) = trace w @ evs2"
      using assms(2)[of x] unfolding oblivious_def by blast
    have "bind_io m f w = f x (snd (m w))" for w
      using m(1)[of w] Inr by (cases "m w") (simp add: bind_io_def)
    then show ?thesis
      by (intro obliviousI[where r = r2 and evs = "evs @ evs2"]) (simp_all add: m(2) f)
  qed
qed

lemma oblivious_catch:
  assumes "oblivious m" and "\<And>e. oblivious (h e)"
  shows "oblivious (catch_io m h)"
proof -
  obtain r evs where m: "\<And>w. fst (m w) = r" "\<And>w. trace (snd (m w)) = trace w @ evs"
    using assms(1) unfolding oblivious_def by blast
  show ?thesis
  proof (cases r)
    case (Inr x)
    have "catch_io m h w = (Inr x, snd (m w))" for w
      using m(1)[of w] Inr by (cases "m w") (simp add: catch_io_def)
    then show ?thesis
      by (intro obliviousI[where r = "Inr x" and evs = evs]) (simp_all add: m(2))
  next
    case (Inl e)
    obtain r2 evs2 where f: "\<And>w. fst (h e w) = r2" "\<And>w. trace (snd (h e w)) = trace w @ evs2"
      using assms(2)[of e] unfolding oblivious_def by blast
    have "catch_io m h w = h e (snd (m w))" for w
      using m(1)[of w] Inl by (cases "m w") (simp add: catch_io_def)
    then show ?thesis
      by (intro obliviousI[where r = r2 and evs = "evs @ evs2"]) (simp_all add: m(2) f)
  qed
qed

lemma oblivious_if: "oblivious m1 \<Longrightarrow> oblivious m2 \<Longrightarrow> oblivious (if b then m1 else m2)"
  by simp

lemmas oblivious_intros =
  oblivious_return oblivious_raise oblivious_lift oblivious_logger oblivious_bind
  oblivious_catch oblivious_if oblivious_http oblivious_translate oblivious_send

lemma oblivious_get_weather: "stable_weather env \<Longrightarrow> oblivious (get_weather env c l)"
  unfolding get_weather_def
  by (intro oblivious_intros) (auto intro!: oblivious_intros split: exn.splits)

lemma oblivious_send_weather_update:
  "stable_outside env \<Longrightarrow> oblivious (send_weather_update env c cty l)"
  unfolding send_weather_update_def
  by (intro oblivious_intros oblivious_get_weather) (auto intro!: oblivious_intros stable_outside_weather)

lemma oblivious_updates_loop: "stable_outside env \<Longrightarrow> oblivious (updates_loop env us)"
  by (induction us) (auto intro!: oblivious_intros oblivious_send_weather_update stable_outside_weather)

lemma oblivious_v1_get_weather: "stable_outside env \<Longrightarrow> oblivious (v1_get_weather env c)"
  unfolding v1_get_weather_def
  by (intro oblivious_intros) (auto intro!: oblivious_intros stable_outside_weather)

lemma oblivious_v1_send_weather_update:
  "stable_outside env \<Longrightarrow> oblivious (v1_send_weather_update env c cty)"
  unfolding v1_send_weather_update_def
  by (intro oblivious_intros oblivious_v1_get_weather) (auto intro!: oblivious_intros stable_outside_weather)

lemma oblivious_v1_updates_loop: "stable_outside env \<Longrightarrow> oblivious (v1_updates_loop env us)"
  by (induction us) (auto intro!: oblivious_intros oblivious_v1_send_weather_update stable_outside_weather)

lemma keeps_v1_updates_loop: "keeps (v1_updates_loop env us)"
  by (induction us) (auto intro!: keeps_intros keeps_v1_send_weather_update)

lemma send_updates_to_all_users_fixed:
  "send_updates_to_all_users env w =
   bind_io (logger INFO LOG_STARTING) (\<lambda>_.
   bind_io (updates_loop env (users w)) (\<lambda>_.
   logger INFO LOG_COMPLETED)) w"
  by (simp add: send_updates_to_all_users_def bind_io_def logger_def)

lemma oblivious_broadcast_fixed:
  "stable_outside env \<Longrightarrow>
   oblivious (bind_io (logger INFO LOG_STARTING) (\<lambda>_.
              bind_io (updates_loop env us) (\<lambda>_.
              logger INFO LOG_COMPLETED)))"
  by (intro oblivious_intros oblivious_updates_loop) (auto intro: stable_outside_weather)

lemma emitted_cong: "m w = m' w \<Longrightarrow> emitted m w = emitted m' w"
  by (simp add: emitted_def)

lemma users_send_updates_to_all_users:
  "users (snd (send_updates_to_all_users env w)) = users w"
  unfolding send_updates_to_all_users_eq
  by (simp add: keepsD(1)[OF keeps_logger] keepsD(1)[OF keeps_updates_loop])

lemma fetches_send_updates_to_all_users:
  "fetches (trace (snd (send_updates_to_all_users env w))) =
   fetches (trace w) @ map (\<lambda>(c, user). weather_url env (city user) (language user)) (users w)"
  unfolding send_updates_to_all_users_eq
  by (simp add: fetches_exactlyD[OF fetches_logger, simplified] updates_loop_fetches)

lemma send_updates_twice_same_events:
  assumes "stable_outside env"
  shows "emitted (send_updates_to_all_users env) (snd (send_updates_to_all_users env w)) =
         emitted (send_updates_to_all_users env) w"
proof -
  let ?w1 = "snd (send_updates_to_all_users env w)"
  let ?m = "bind_io (logger INFO LOG_STARTING) (\<lambda>_.
            bind_io (updates_loop env (users w)) (\<lambda>_.
            logger INFO LOG_COMPLETED))"
  have u: "users ?w1 = users w" by (rule users_send_updates_to_all_users)
  have "emitted (send_updates_to_all_users env) ?w1 = emitted ?m ?w1"
    by (rule emitted_cong) (simp add: send_updates_to_all_users_fixed[of env ?w1] u)
  also have "\<dots> = emitted ?m w"
    by (rule oblivious_emitted[OF oblivious_broadcast_fixed[OF assms]])
  also have "\<dots> = emitted (send_updates_to_all_users env) w"
    by (rule emitted_cong) (simp add: send_updates_to_all_users_fixed[of env w])
  finally show ?thesis .
qed

lemma v1_send_updates_twice_same_events:
  assumes "stable_outside env"
  shows "emitted (v1_send_updates_to_all_users env) (snd (v1_send_updates_to_all_users env v)) =
         emitted (v1_send_updates_to_all_users env) v"
proof -
  let ?v1 = "snd (v1_send_updates_to_all_users env v)"
  let ?m = "v1_updates_loop env (users v)"
  have u: "users ?v1 = users v"
    by (simp add: v1_send_updates_to_all_users_def keepsD(1)[OF keeps_v1_updates_loop])
  have "emitted (v1_send_updates_to_all_users env) ?v1 = emitted ?m ?v1"
    by (rule emitted_cong) (simp add: v1_send_updates_to_all_users_def[of env ?v1] u)
  also have "\<dots> = emitted ?m v"
    by (rule oblivious_emitted[OF oblivious_v1_updates_loop[OF assms]])
  also have "\<dots> = emitted (v1_send_updates_to_all_users env) v"
    by (rule emitted_cong) (simp add: v1_send_updates_to_all_users_def)
  finally show ?thesis .
qed

section \<open>A city the weather endpoint rejects\<close>

lemma fetches_users_set: "fetches_exactly (users_set k v) []"
  by (simp add: fetches_exactly_def users_set_def)

lemma v1_get_city_no_fetch: "fetches_exactly (v1_get_city env m) []"
  unfolding v1_get_city_def
  by (intro quiet_intros fetches_users_set)

lemma process_city_input_failed:
  assumes strip: "text_strip env m = Inr cty"
    and bad: "get_weather env cty DEFAULT_LANGUAGE w = (Inl e, w1)"
  shows "process_city_input env m w =
         (if is_WeatherServiceError e then
            bind_io
              (send_message env (chat_id m)
                 (CITY_NOT_FOUND_1 @ fmt_opt (msg_text m) @ CITY_NOT_FOUND_2) NoMarkup) (\<lambda>_.
            register_next_step_handler (chat_id m) PROCESS_CITY_INPUT)
          else
            bind_io (logger ERROR (LOG_CITY_INPUT_ERROR @ str_exn env e)) (\<lambda>_.
            send_message env (chat_id m) GENERIC_ERROR NoMarkup)) w1"
  unfolding process_city_input_def
  by (simp add: catch_io_def bind_io_def lift_io_def strip bad)

lemma process_city_input_failed_users:
  assumes strip: "text_strip env m = Inr cty"
    and bad: "\<not> returns (get_weather env cty DEFAULT_LANGUAGE w)"
  shows "users (snd (process_city_input env m w)) = users w"
proof -
  obtain e w1 where g: "get_weather env cty DEFAULT_LANGUAGE w = (Inl e, w1)"
    using bad by (cases "get_weather env cty DEFAULT_LANGUAGE w"; cases "fst (get_weather env cty DEFAULT_LANGUAGE w)")
      (auto simp: returns_def)
  have u1: "users w1 = users w"
    using keeps_eqD(1)[OF keeps_get_weather g] .
  show ?thesis
    unfolding process_city_input_failed[OF strip g]
    using keeps_usersD[OF keeps_users_city_handler, of e env "chat_id m" _ _ w1] u1
    by simp
qed

lemma process_city_input_retry:
  assumes strip: "text_strip env m = Inr cty"
    and bad: "fst (get_weather env cty DEFAULT_LANGUAGE w) = Inl (WeatherServiceError s)"
    and sent: "bot_send env (clock (snd (get_weather env cty DEFAULT_LANGUAGE w))) (chat_id m)
                 (CITY_NOT_FOUND_1 @ fmt_opt (msg_text m) @ CITY_NOT_FOUND_2) = None"
  shows "process_city_input env m w =
         (Inr (), (tick (Sent (chat_id m)
                     (CITY_NOT_FOUND_1 @ fmt_opt (msg_text m) @ CITY_NOT_FOUND_2) NoMarkup)
                    (snd (get_weather env cty DEFAULT_LANGUAGE w)))
                  \<lparr>next_step :=
                     (next_step (snd (get_weather env cty DEFAULT_LANGUAGE w)))
                     (chat_id m \<mapsto> PROCESS_CITY_INPUT)\<rparr>)"
proof -
  let ?w1 = "snd (get_weather env cty DEFAULT_LANGUAGE w)"
  have g: "get_weather env cty DEFAULT_LANGUAGE w = (Inl (WeatherServiceError s), ?w1)"
    using bad by (cases "get_weather env cty DEFAULT_LANGUAGE w") simp
  show ?thesis
    unfolding process_city_input_failed[OF strip g]
    by (simp add: bind_io_def send_message_accepted[OF sent] register_next_step_handler_def
        tick_def)
qed

text \<open>
  C1, as the code has it. In \<^verbatim>\<open>resultv2.py\<close>: whenever the validating fetch of a city input
  raises, \<^verbatim>\<open>users\<close> is left as it was; when the exception is a \<open>WeatherServiceError\<close> and the
  transport takes the retry prompt, \<open>process_city_input\<close> is registered again for the
  chat, and a chat with that handler pending has its next message, whatever its text,
  processed as a city. In \<^verbatim>\<open>resultv1.py\<close>, \<open>get_city\<close> makes no fetch at all and stores
  the stripped text as the city once the confirmation is sent.
\<close>

theorem failed_city_input_keeps_store_and_awaits_city:
  "(text_strip env m = Inr cty \<and> \<not> returns (get_weather env cty DEFAULT_LANGUAGE w)
      \<longrightarrow> users (snd (process_city_input env m w)) = users w)
   \<and> (text_strip env m = Inr cty
        \<and> fst (get_weather env cty DEFAULT_LANGUAGE w) = Inl (WeatherServiceError s)
        \<and> bot_send env (clock (snd (get_weather env cty DEFAULT_LANGUAGE w))) (chat_id m)
             (CITY_NOT_FOUND_1 @ fmt_opt (msg_text m) @ CITY_NOT_FOUND_2) = None
      \<longrightarrow> returns (process_city_input env m w)
          \<and> next_step (snd (process_city_input env m w)) (chat_id m) = Some PROCESS_CITY_INPUT)
   \<and> (next_step w' (chat_id m') = Some PROCESS_CITY_INPUT
      \<longrightarrow> handle_message env m' w' =
          process_city_input env m' (w'\<lparr>next_step := (next_step w')(chat_id m' := None)\<rparr>))
   \<and> fetches (trace (snd (v1_get_city env m v))) = fetches (trace v)
   \<and> (text_strip env m = Inr cty
        \<and> bot_send env (clock v) (chat_id m) (V1_CONFIRM_1 @ cty @ V1_CONFIRM_2) = None
      \<longrightarrow> users (snd (v1_get_city env m v)) = dict_set (users v) (chat_id m) \<lparr>v1_city = cty\<rparr>)"
proof (intro conjI impI)
  show "fetches (trace (snd (v1_get_city env m v))) = fetches (trace v)"
    using fetches_exactlyD[OF v1_get_city_no_fetch, of env m v] by simp
qed (simp_all add: process_city_input_failed_users process_city_input_retry returns_def
      handle_message_awaiting_city v1_get_city_registers)

theorem failed_city_input_keeps_store_and_awaits_city_witness:
  "text_strip env_404 msg_atlantis = Inr ''Atlantis''
   \<and> \<not> returns (get_weather env_404 ''Atlantis'' DEFAULT_LANGUAGE world_en)
   \<and> fst (get_weather env_404 ''Atlantis'' DEFAULT_LANGUAGE world_en) =
       Inl (WeatherServiceError (API_ERROR_PREFIX @ ''city not found''))
   \<and> users (snd (process_city_input env_404 msg_atlantis world_en)) = users world_en
   \<and> returns (process_city_input env_404 msg_atlantis world_en)
   \<and> next_step (snd (process_city_input env_404 msg_atlantis world_en)) 7 = Some PROCESS_CITY_INPUT
   \<and> next_step world_asked 7 = Some PROCESS_CITY_INPUT
   \<and> handle_message env_404 msg_atlantis world_asked =
       process_city_input env_404 msg_atlantis
         (world_asked\<lparr>next_step := (next_step world_asked)(7 := None)\<rparr>)
   \<and> users (snd (v1_get_city env_404 msg_atlantis world0)) =
       dict_set [] 7 \<lparr>v1_city = ''Atlantis''\<rparr>"
proof -
  have c: "chat_id msg_atlantis = 7" and t: "msg_text msg_atlantis = Some ''Atlantis''"
    by (simp_all add: msg_atlantis_def)
  have strip: "text_strip env_404 msg_atlantis = Inr ''Atlantis''"
    by (simp add: text_strip_def t env_404_def env_ok_def)
  have g: "get_weather env_404 ''Atlantis'' DEFAULT_LANGUAGE world_en =
           (Inl (WeatherServiceError (API_ERROR_PREFIX @ ''city not found'')),
            tick (HttpGet (weather_url env_404 ''Atlantis'' DEFAULT_LANGUAGE)) world_en)"
    by (rule get_weather_not_found) (simp add: env_404_def env_ok_def)
  have nr: "\<not> returns (get_weather env_404 ''Atlantis'' DEFAULT_LANGUAGE world_en)"
    by (simp add: g returns_def)
  have sent: "bot_send env_404 k x y = None" for k x y
    by (simp add: env_404_def env_ok_def)
  have asked: "next_step world_asked (chat_id msg_atlantis) = Some PROCESS_CITY_INPUT"
    by (simp add: world_asked_def c)
  note T = failed_city_input_keeps_store_and_awaits_city
      [where env = env_404 and m = msg_atlantis and cty = "''Atlantis''" and w = world_en
        and s = "API_ERROR_PREFIX @ ''city not found''" and w' = world_asked
        and m' = msg_atlantis and v = "world0 :: (v1_user_info, v1_step) world"]
  have a: "users (snd (process_city_input env_404 msg_atlantis world_en)) = users world_en"
    using T strip nr by blast
  have b: "returns (process_city_input env_404 msg_atlantis world_en)
           \<and> next_step (snd (process_city_input env_404 msg_atlantis world_en)) (chat_id msg_atlantis)
             = Some PROCESS_CITY_INPUT"
    using T strip g sent by simp
  have d: "handle_message env_404 msg_atlantis world_asked =
       process_city_input env_404 msg_atlantis
         (world_asked\<lparr>next_step := (next_step world_asked)(chat_id msg_atlantis := None)\<rparr>)"
    using T asked by blast
  have e: "users (snd (v1_get_city env_404 msg_atlantis world0)) =
       dict_set (users (world0 :: (v1_user_info, v1_step) world)) (chat_id msg_atlantis)
         \<lparr>v1_city = ''Atlantis''\<rparr>"
    using T strip sent by blast
  show ?thesis
    using strip nr g a b d e asked by (simp add: c world0_def)
qed

text \<open>
  C1 fails on \<^verbatim>\<open>resultv1.py\<close>: the weather endpoint knows no city, so the fetch for
  \<^verbatim>\<open>Atlantis\<close> fails (\<open>get_weather\<close> returns the failure text); a chat that was asked for its
  city and answers \<^verbatim>\<open>Atlantis\<close> is stored with that city all the same, without any fetch, and
  no handler is left pending.
\<close>

theorem v1_get_city_stores_unknown_city_counterexample:
  "fst (v1_get_weather env_404 ''Atlantis'' v1_world_asked) = Inr V1_WEATHER_FAILED
   \<and> dict_get (users v1_world_asked) 7 = None
   \<and> dict_get (users (snd (v1_handle_message env_404 msg_atlantis v1_world_asked))) 7 =
       Some \<lparr>v1_city = ''Atlantis''\<rparr>
   \<and> next_step (snd (v1_handle_message env_404 msg_atlantis v1_world_asked)) 7 = None
   \<and> fetches (trace (snd (v1_handle_message env_404 msg_atlantis v1_world_asked))) = []"
proof -
  have f: "fst (v1_get_weather env_404 ''Atlantis'' v1_world_asked) = Inr V1_WEATHER_FAILED"
    by (simp add: v1_get_weather_def io_defs json_defs http_get_json_def env_404_def env_ok_def
        not_found_body_def)
  have h: "v1_handle_message env_404 msg_atlantis v1_world_asked =
           (Inr (), \<lparr>users = [(7, \<lparr>v1_city = ''Atlantis''\<rparr>)], next_step = (\<lambda>c. None)(7 := None), clock = 1,
                     trace = [Sent 7 (V1_CONFIRM_1 @ ''Atlantis'' @ V1_CONFIRM_2) NoMarkup]\<rparr>)"
    by (simp add: v1_handle_message_def v1_world_asked_def world0_def msg_atlantis_def
        v1_get_city_def text_strip_def io_defs send_message_def tick_def users_set_def
        dict_set_def env_404_def env_ok_def)
  show ?thesis
    by (simp add: f h dict_get_def) (simp add: v1_world_asked_def world0_def)
qed

section \<open>Translation\<close>

lemma pure_ioD: "pure_io m \<Longrightarrow> snd (m w) = w"
  by (simp add: pure_io_def)

lemma pure_return: "pure_io (return_io x)"
  by (simp add: pure_io_def return_io_def)

lemma pure_raise: "pure_io (raise_io e)"
  by (simp add: pure_io_def raise_io_def)

lemma pure_lift: "pure_io (lift_io r)"
  by (simp add: pure_io_def lift_io_def)

lemma pure_if: "pure_io m1 \<Longrightarrow> pure_io m2 \<Longrightarrow> pure_io (if b then m1 else m2)"
  by simp

lemma pure_bind:
  assumes "pure_io m" and "\<And>x. pure_io (f x)"
  shows "pure_io (bind_io m f)"
  unfolding pure_io_def
proof (intro allI)
  fix w
  obtain r w' where mw: "m w = (r, w')" by (cases "m w")
  have w': "w' = w" using pure_ioD[OF assms(1), of w] mw by simp
  show "snd (bind_io m f w) = w"
    by (cases r) (simp_all add: bind_io_def mw w' pure_ioD[OF assms(2)])
qed

lemmas pure_intros = pure_return pure_raise pure_lift pure_if pure_bind

lemma snd_catch_bind_pure:
  assumes "\<And>x. pure_io (f x)" and "\<And>e. pure_io (h e)"
  shows "snd (catch_io (bind_io m f) h w) = snd (m w)"
proof -
  obtain r w' where mw: "m w = (r, w')" by (cases "m w")
  show ?thesis
  proof (cases r)
    case (Inl e)
    then show ?thesis by (simp add: catch_io_def bind_io_def mw pure_ioD[OF assms(2)])
  next
    case (Inr x)
    obtain r2 w2 where fx: "f x w' = (r2, w2)" by (cases "f x w'")
    have w2: "w2 = w'" using pure_ioD[OF assms(1), of x w'] fx by simp
    show ?thesis
      by (cases r2) (simp_all add: catch_io_def bind_io_def mw Inr fx w2 pure_ioD[OF assms(2)])
  qed
qed

lemma snd_http_get_json: "snd (http_get_json env url w) = tick (HttpGet url) w"
  by (simp add: http_get_json_def split: http_outcome.splits)

text \<open>All that \<open>get_weather\<close> does to the outside is its one request.\<close>

lemma snd_get_weather: "snd (get_weather env c l w) = tick (HttpGet (weather_url env c l)) w"
  unfolding get_weather_def
  by (subst snd_catch_bind_pure) (auto intro!: pure_intros simp: snd_http_get_json split: exn.splits)

lemma translate_calls_append:
  "translate_calls (xs @ ys) = translate_calls xs @ translate_calls ys"
  by (induction xs rule: translate_calls.induct) simp_all

lemma translate_text_fails:
  assumes "translator_translate env (clock w) (JStr t) None dest = Inl s"
  shows "translate_text env t dest w =
         (Inl (TranslationError (TRANSLATION_ERROR_PREFIX @ s)), tick (Translate (JStr t)) w)"
  by (simp add: translate_text_def catch_io_def translate_def assms raise_io_def str_exn_def)

lemma v1_get_weather_translation_fails:
  assumes body: "requests_get env (clock v) (v1_weather_url env c) = Body data"
    and cod: "py_get data ''cod'' JNull = Inr cod" "py_eq_int cod 200"
    and temp: "py_getitem data ''main'' = Inr main1" "py_getitem main1 ''temp'' = Inr temperature"
    and desc: "py_getitem data ''weather'' = Inr weather" "py_getitem0 weather = Inr weather0"
      "py_getitem weather0 ''description'' = Inr description"
    and tr: "translator_translate env (Suc (clock v)) description (Some ''en'') ''ru'' = Inl s"
  shows "v1_get_weather env c v =
         (Inl (OtherException s),
          tick (Translate description) (tick (HttpGet (v1_weather_url env c)) v))"
  unfolding v1_get_weather_def
  by (simp add: io_defs http_get_json_def translate_def body cod temp desc tr tick_def)

text \<open>
  C5, as the code has it. In \<^verbatim>\<open>resultv1.py\<close>, when the weather data is obtained and the
  translation fails, the fetch fails as a whole: \<open>get_weather\<close> raises the exception of the
  translator, there is no fallback to the untranslated description, and
  \<open>send_weather_update\<close> passes the exception on without sending anything. In
  \<^verbatim>\<open>resultv2.py\<close>, \<open>get_weather\<close> has no translation step: it never calls the translator;
  \<open>translate_text\<close> raises a \<open>TranslationError\<close> whenever the translator fails.
\<close>

theorem translation_failure_in_fetch:
  "(requests_get env (clock v) (v1_weather_url env c) = Body data
      \<and> py_get data ''cod'' JNull = Inr cod \<and> py_eq_int cod 200
      \<and> py_getitem data ''main'' = Inr main1 \<and> py_getitem main1 ''temp'' = Inr temperature
      \<and> py_getitem data ''weather'' = Inr weather \<and> py_getitem0 weather = Inr weather0
      \<and> py_getitem weather0 ''description'' = Inr description
      \<and> translator_translate env (Suc (clock v)) description (Some ''en'') ''ru'' = Inl s
    \<longrightarrow> v1_get_weather env c v =
          (Inl (OtherException s),
           tick (Translate description) (tick (HttpGet (v1_weather_url env c)) v))
        \<and> v1_send_weather_update env chat c v =
          (Inl (OtherException s),
           tick (Translate description) (tick (HttpGet (v1_weather_url env c)) v)))
   \<and> translate_calls (trace (snd (get_weather env c l w))) = translate_calls (trace w)
   \<and> (translator_translate env (clock w) (JStr t) None dest = Inl s
      \<longrightarrow> translate_text env t dest w =
          (Inl (TranslationError (TRANSLATION_ERROR_PREFIX @ s)), tick (Translate (JStr t)) w))"
proof (intro conjI impI)
  assume h: "requests_get env (clock v) (v1_weather_url env c) = Body data
      \<and> py_get data ''cod'' JNull = Inr cod \<and> py_eq_int cod 200
      \<and> py_getitem data ''main'' = Inr main1 \<and> py_getitem main1 ''temp'' = Inr temperature
      \<and> py_getitem data ''weather'' = Inr weather \<and> py_getitem0 weather = Inr weather0
      \<and> py_getitem weather0 ''description'' = Inr description
      \<and> translator_translate env (Suc (clock v)) description (Some ''en'') ''ru'' = Inl s"
  then show g: "v1_get_weather env c v =
          (Inl (OtherException s),
           tick (Translate description) (tick (HttpGet (v1_weather_url env c)) v))"
    using v1_get_weather_translation_fails[of env v c data cod main1 temperature weather weather0
        description s]
    by blast
  show "v1_send_weather_update env chat c v =
          (Inl (OtherException s),
           tick (Translate description) (tick (HttpGet (v1_weather_url env c)) v))"
    by (simp add: v1_send_weather_update_def bind_io_def g)
next
  show "translate_calls (trace (snd (get_weather env c l w))) = translate_calls (trace w)"
    by (simp add: snd_get_weather tick_def translate_calls_append)
next
  assume "translator_translate env (clock w) (JStr t) None dest = Inl s"
  then show "translate_text env t dest w =
          (Inl (TranslationError (TRANSLATION_ERROR_PREFIX @ s)), tick (Translate (JStr t)) w)"
    by (rule translate_text_fails)
qed

theorem translation_failure_in_fetch_witness:
  "requests_get env_no_translator (clock (world0 :: (v1_user_info, v1_step) world))
     (v1_weather_url env_no_translator ''Paris'') = Body report_body
   \<and> py_get report_body ''cod'' JNull = Inr (JInt 200) \<and> py_eq_int (JInt 200) 200
   \<and> py_getitem report_body ''main'' = Inr (JObj [(''temp'', JInt 5), (''humidity'', JInt 80)])
   \<and> py_getitem (JObj [(''temp'', JInt 5), (''humidity'', JInt 80)]) ''temp'' = Inr (JInt 5)
   \<and> py_getitem report_body ''weather'' = Inr (JArr [JObj [(''description'', JStr ''clear sky'')]])
   \<and> py_getitem0 (JArr [JObj [(''description'', JStr ''clear sky'')]])
       = Inr (JObj [(''description'', JStr ''clear sky'')])
   \<and> py_getitem (JObj [(''description'', JStr ''clear sky'')]) ''description'' = Inr (JStr ''clear sky'')
   \<and> translator_translate env_no_translator
        (Suc (clock (world0 :: (v1_user_info, v1_step) world))) (JStr ''clear sky'') (Some ''en'') ''ru''
       = Inl ''no route to host''
   \<and> v1_send_weather_update env_no_translator 7 ''Paris'' (world0 :: (v1_user_info, v1_step) world) =
       (Inl (OtherException ''no route to host''),
        tick (Translate (JStr ''clear sky''))
          (tick (HttpGet (v1_weather_url env_no_translator ''Paris'')) world0))
   \<and> translator_translate env_no_translator (clock (world0 :: (user_info, step) world))
        (JStr ''clear sky'') None ''ru'' = Inl ''no route to host''
   \<and> translate_text env_no_translator ''clear sky'' ''ru'' (world0 :: (user_info, step) world) =
       (Inl (TranslationError (TRANSLATION_ERROR_PREFIX @ ''no route to host'')),
        tick (Translate (JStr ''clear sky'')) world0)"
proof -
  let ?v = "world0 :: (v1_user_info, v1_step) world"
  let ?w = "world0 :: (user_info, step) world"
  have h1: "requests_get env_no_translator (clock ?v) (v1_weather_url env_no_translator ''Paris'')
            = Body report_body"
    by (simp add: env_no_translator_def env_ok_def)
  have h2: "py_get report_body ''cod'' JNull = Inr (JInt 200)" "py_eq_int (JInt 200) 200"
    "py_getitem report_body ''main'' = Inr (JObj [(''temp'', JInt 5), (''humidity'', JInt 80)])"
    "py_getitem (JObj [(''temp'', JInt 5), (''humidity'', JInt 80)]) ''temp'' = Inr (JInt 5)"
    "py_getitem report_body ''weather'' = Inr (JArr [JObj [(''description'', JStr ''clear sky'')]])"
    "py_getitem0 (JArr [JObj [(''description'', JStr ''clear sky'')]])
       = Inr (JObj [(''description'', JStr ''clear sky'')])"
    "py_getitem (JObj [(''description'', JStr ''clear sky'')]) ''description'' = Inr (JStr ''clear sky'')"
    by (simp_all add: json_defs report_body_def)
  have h3: "translator_translate env_no_translator k x src dest = Inl ''no route to host''"
    for k x src dest
    by (simp add: env_no_translator_def)
  note T = translation_failure_in_fetch
      [where env = env_no_translator and v = ?v and c = "''Paris''" and data = report_body
        and cod = "JInt 200" and ?main1.0 = "JObj [(''temp'', JInt 5), (''humidity'', JInt 80)]"
        and temperature = "JInt 5"
        and weather = "JArr [JObj [(''description'', JStr ''clear sky'')]]"
        and ?weather0.0 = "JObj [(''description'', JStr ''clear sky'')]"
        and description = "JStr ''clear sky''" and s = "''no route to host''" and chat = 7
        and w = ?w and t = "''clear sky''" and dest = "''ru''" and l = "''ru''"]
  have a: "v1_send_weather_update env_no_translator 7 ''Paris'' ?v =
       (Inl (OtherException ''no route to host''),
        tick (Translate (JStr ''clear sky''))
          (tick (HttpGet (v1_weather_url env_no_translator ''Paris'')) ?v))"
    using T h1 h2 h3 by blast
  have b: "translate_text env_no_translator ''clear sky'' ''ru'' ?w =
       (Inl (TranslationError (TRANSLATION_ERROR_PREFIX @ ''no route to host'')),
        tick (Translate (JStr ''clear sky'')) ?w)"
    using T h3 by blast
  show ?thesis
    using h1 h2 h3 a b by simp
qed

text \<open>
  C5 fails on \<^verbatim>\<open>resultv1.py\<close>: the weather endpoint answers with a full report and the
  translator is out of reach; \<open>get_weather\<close> raises, so the fetch does not succeed and
  nothing falls back to the untranslated description.
\<close>

theorem v1_translation_failure_fails_fetch_counterexample:
  "requests_get env_no_translator 0 (v1_weather_url env_no_translator ''Paris'') = Body report_body
   \<and> v1_get_weather env_no_translator ''Paris'' (world0 :: (v1_user_info, v1_step) world) =
       (Inl (OtherException ''no route to host''),
        tick (Translate (JStr ''clear sky''))
          (tick (HttpGet (v1_weather_url env_no_translator ''Paris'')) world0))
   \<and> \<not> returns (v1_get_weather env_no_translator ''Paris'' (world0 :: (v1_user_info, v1_step) world))"
proof -
  have g: "v1_get_weather env_no_translator ''Paris'' (world0 :: (v1_user_info, v1_step) world) =
       (Inl (OtherException ''no route to host''),
        tick (Translate (JStr ''clear sky''))
          (tick (HttpGet (v1_weather_url env_no_translator ''Paris'')) world0))"
    by (rule v1_get_weather_translation_fails[where data = report_body
          and cod = "JInt 200" and ?main1.0 = "JObj [(''temp'', JInt 5), (''humidity'', JInt 80)]"
          and temperature = "JInt 5"
          and weather = "JArr [JObj [(''description'', JStr ''clear sky'')]]"
          and ?weather0.0 = "JObj [(''description'', JStr ''clear sky'')]"])
       (simp_all add: json_defs report_body_def env_no_translator_def env_ok_def)
  show ?thesis
    by (simp add: g returns_def) (simp add: env_no_translator_def env_ok_def)
qed

section \<open>What the user is told when the fetch fails\<close>

lemma sends_append: "sends (xs @ ys) = sends xs @ sends ys"
  by (induction xs rule: sends.induct) simp_all

lemma sends_send_message:
  "sends (trace (snd (send_message env c t mk w))) = sends (trace w) @ [(c, t)]"
  by (simp add: send_message_def tick_def sends_append split: option.splits)

lemma get_weather_eq:
  "get_weather env c l w = (fst (get_weather env c l w), tick (HttpGet (weather_url env c l)) w)"
  using snd_get_weather[of env c l w] by (cases "get_weather env c l w") simp

lemma send_weather_update_error:
  assumes "fst (get_weather env cty l w) = Inl (WeatherServiceError s)"
  shows "send_weather_update env c cty l w =
         bind_io (send_message env c (WEATHER_FAILED_FOR @ cty @ '': '' @ s) NoMarkup)
           (\<lambda>_. logger ERROR (WEATHER_FAILED_FOR @ cty @ '': '' @ s))
           (tick (HttpGet (weather_url env cty l)) w)"
proof -
  have g: "get_weather env cty l w =
           (Inl (WeatherServiceError s), tick (HttpGet (weather_url env cty l)) w)"
    using get_weather_eq[of env cty l w] assms by simp
  show ?thesis
    unfolding send_weather_update_def
    by (simp add: catch_bind_Inl[where m = "get_weather env cty l", OF g] str_exn_def)
qed

lemma sends_send_then_log:
  "sends (trace (snd (bind_io (send_message env c t mk) (\<lambda>_. logger lv t') w))) =
   sends (trace w) @ [(c, t)]"
  by (simp add: bind_io_def send_message_def logger_def tick_def sends_append split: option.splits)

lemma sends_send_weather_update_error:
  assumes "fst (get_weather env cty l w) = Inl (WeatherServiceError s)"
  shows "sends (trace (snd (send_weather_update env c cty l w))) =
         sends (trace w) @ [(c, WEATHER_FAILED_FOR @ cty @ '': '' @ s)]"
  unfolding send_weather_update_error[OF assms]
  by (simp add: sends_send_then_log) (simp add: tick_def sends_append)

lemma sends_attempt_error:
  assumes "fst (get_weather env (city user) (language user) w) = Inl (WeatherServiceError s)"
  shows "sends (trace (snd (attempt env c user w))) =
         sends (trace w) @ [(c, WEATHER_FAILED_FOR @ city user @ '': '' @ s)]"
proof -
  let ?u = "send_weather_update env c (city user) (language user)"
  obtain r w' where u: "?u w = (r, w')" by (cases "?u w")
  have s: "sends (trace w') = sends (trace w) @ [(c, WEATHER_FAILED_FOR @ city user @ '': '' @ s)]"
    using sends_send_weather_update_error[OF assms, of c] u by simp
  show ?thesis
    by (cases r) (simp_all add: attempt_def catch_io_def u s logger_def sends_append)
qed

lemma get_weather_api_error:
  assumes "requests_get env (clock w) (weather_url env c l) = Body (JObj kvs)"
    and "py_get (JObj kvs) ''cod'' JNull = Inr cod" and "\<not> py_eq_int cod 200"
    and "obj_lookup kvs ''message'' = Some (JStr pm)"
  shows "fst (get_weather env c l w) = Inl (WeatherServiceError (API_ERROR_PREFIX @ pm))"
  unfolding get_weather_def
  by (simp add: io_defs http_get_json_def assms py_get_def[of "JObj kvs" "''message''"] fmt_def)

lemma sends_process_city_input_error:
  assumes strip: "text_strip env m = Inr cty"
    and bad: "fst (get_weather env cty DEFAULT_LANGUAGE w) = Inl (WeatherServiceError s)"
  shows "sends (trace (snd (process_city_input env m w))) =
         sends (trace w)
         @ [(chat_id m, CITY_NOT_FOUND_1 @ fmt_opt (msg_text m) @ CITY_NOT_FOUND_2)]"
proof -
  have g: "get_weather env cty DEFAULT_LANGUAGE w =
           (Inl (WeatherServiceError s), tick (HttpGet (weather_url env cty DEFAULT_LANGUAGE)) w)"
    using get_weather_eq[of env cty DEFAULT_LANGUAGE w] bad by simp
  show ?thesis
    unfolding process_city_input_failed[OF strip g]
    by (simp add: bind_io_def send_message_def register_next_step_handler_def tick_def
        sends_append split: option.splits)
qed

lemma send_current_weather_subscribed:
  assumes "dict_get (users w) (chat_id m) = Some user"
    and "bot_send env (clock w) (chat_id m) REQUESTING_WEATHER = None"
  shows "send_current_weather env m w =
         catch_io (send_weather_update env (chat_id m) (city user) (language user))
           (\<lambda>e. bind_io (logger ERROR (LOG_NOW_ERROR @ str_exn env e)) (\<lambda>_.
                send_message env (chat_id m) NOW_FAILED NoMarkup))
           (tick (Sent (chat_id m) REQUESTING_WEATHER NoMarkup) w)"
  unfolding send_current_weather_def
  by (simp add: assms(1) catch_bind_Inr[where m = "send_message env (chat_id m) REQUESTING_WEATHER NoMarkup",
        OF send_message_accepted[OF assms(2)]])

text \<open>
  C6, as the code has it. In the city registration of \<^verbatim>\<open>resultv2.py\<close>, when the validating
  fetch raises a \<open>WeatherServiceError\<close>, the one message sent is the fixed retry text around
  the text the user typed, whatever the error says. In \<open>send_weather_update\<close>, which both
  \<^verbatim>\<open>/now\<close> and the broadcast call, a \<open>WeatherServiceError\<close> is sent to the chat: the message
  is the failure prefix, the city and the text of the exception, and for a status other
  than 200 that text is \<^verbatim>\<open>API error: \<close> followed by the message of the weather endpoint.
\<close>

theorem error_text_shown_to_user:
  "(text_strip env m = Inr cty
      \<and> fst (get_weather env cty DEFAULT_LANGUAGE w) = Inl (WeatherServiceError s)
    \<longrightarrow> sends (trace (snd (process_city_input env m w))) =
        sends (trace w)
        @ [(chat_id m, CITY_NOT_FOUND_1 @ fmt_opt (msg_text m) @ CITY_NOT_FOUND_2)])
   \<and> (requests_get env (clock w) (weather_url env c l) = Body (JObj kvs)
      \<and> py_get (JObj kvs) ''cod'' JNull = Inr cod \<and> \<not> py_eq_int cod 200
      \<and> obj_lookup kvs ''message'' = Some (JStr pm)
    \<longrightarrow> fst (get_weather env c l w) = Inl (WeatherServiceError (API_ERROR_PREFIX @ pm)))
   \<and> (fst (get_weather env (city user) (language user) w) = Inl (WeatherServiceError s)
    \<longrightarrow> sends (trace (snd (send_weather_update env ch (city user) (language user) w))) =
        sends (trace w) @ [(ch, WEATHER_FAILED_FOR @ city user @ '': '' @ s)]
      \<and> sends (trace (snd (attempt env ch user w))) =
        sends (trace w) @ [(ch, WEATHER_FAILED_FOR @ city user @ '': '' @ s)])
   \<and> (dict_get (users w) (chat_id m) = Some user
      \<and> bot_send env (clock w) (chat_id m) REQUESTING_WEATHER = None
    \<longrightarrow> send_current_weather env m w =
        catch_io (send_weather_update env (chat_id m) (city user) (language user))
          (\<lambda>e. bind_io (logger ERROR (LOG_NOW_ERROR @ str_exn env e)) (\<lambda>_.
               send_message env (chat_id m) NOW_FAILED NoMarkup))
          (tick (Sent (chat_id m) REQUESTING_WEATHER NoMarkup) w))"
proof (intro conjI impI)
  assume "text_strip env m = Inr cty
      \<and> fst (get_weather env cty DEFAULT_LANGUAGE w) = Inl (WeatherServiceError s)"
  then show "sends (trace (snd (process_city_input env m w))) =
        sends (trace w)
        @ [(chat_id m, CITY_NOT_FOUND_1 @ fmt_opt (msg_text m) @ CITY_NOT_FOUND_2)]"
    using sends_process_city_input_error by blast
next
  assume "requests_get env (clock w) (weather_url env c l) = Body (JObj kvs)
      \<and> py_get (JObj kvs) ''cod'' JNull = Inr cod \<and> \<not> py_eq_int cod 200
      \<and> obj_lookup kvs ''message'' = Some (JStr pm)"
  then show "fst (get_weather env c l w) = Inl (WeatherServiceError (API_ERROR_PREFIX @ pm))"
    using get_weather_api_error by blast
next
  assume a: "fst (get_weather env (city user) (language user) w) = Inl (WeatherServiceError s)"
  show "sends (trace (snd (send_weather_update env ch (city user) (language user) w))) =
        sends (trace w) @ [(ch, WEATHER_FAILED_FOR @ city user @ '': '' @ s)]"
    by (rule sends_send_weather_update_error[OF a])
  show "sends (trace (snd (attempt env ch user w))) =
        sends (trace w) @ [(ch, WEATHER_FAILED_FOR @ city user @ '': '' @ s)]"
    by (rule sends_attempt_error[OF a])
next
  assume "dict_get (users w) (chat_id m) = Some user
      \<and> bot_send env (clock w) (chat_id m) REQUESTING_WEATHER = None"
  then show "send_current_weather env m w =
        catch_io (send_weather_update env (chat_id m) (city user) (language user))
          (\<lambda>e. bind_io (logger ERROR (LOG_NOW_ERROR @ str_exn env e)) (\<lambda>_.
               send_message env (chat_id m) NOW_FAILED NoMarkup))
          (tick (Sent (chat_id m) REQUESTING_WEATHER NoMarkup) w)"
    using send_current_weather_subscribed by blast
qed

theorem error_text_shown_to_user_witness:
  "text_strip env_404 msg_atlantis = Inr ''Atlantis''
   \<and> requests_get env_404 (clock world_atlantis) (weather_url env_404 ''Atlantis'' ''ru'') =
       Body (JObj [(''cod'', JStr ''404''), (''message'', JStr ''city not found'')])
   \<and> py_get (JObj [(''cod'', JStr ''404''), (''message'', JStr ''city not found'')]) ''cod'' JNull
       = Inr (JStr ''404'')
   \<and> \<not> py_eq_int (JStr ''404'') 200
   \<and> obj_lookup [(''cod'', JStr ''404''), (''message'', JStr ''city not found'')] ''message''
       = Some (JStr ''city not found'')
   \<and> fst (get_weather env_404 ''Atlantis'' ''ru'' world_atlantis) =
       Inl (WeatherServiceError (API_ERROR_PREFIX @ ''city not found''))
   \<and> sends (trace (snd (process_city_input env_404 msg_atlantis world_atlantis))) =
       [(7, CITY_NOT_FOUND_1 @ ''Atlantis'' @ CITY_NOT_FOUND_2)]
   \<and> sends (trace (snd (attempt env_404 7 \<lparr>city = ''Atlantis'', language = ''ru''\<rparr> world_atlantis))) =
       [(7, WEATHER_FAILED_FOR @ ''Atlantis'' @ '': '' @ API_ERROR_PREFIX @ ''city not found'')]
   \<and> dict_get (users world_atlantis) 7 = Some \<lparr>city = ''Atlantis'', language = ''ru''\<rparr>
   \<and> bot_send env_404 (clock world_atlantis) 7 REQUESTING_WEATHER = None
   \<and> send_current_weather env_404 msg_now world_atlantis =
       catch_io (send_weather_update env_404 7 ''Atlantis'' ''ru'')
         (\<lambda>e. bind_io (logger ERROR (LOG_NOW_ERROR @ str_exn env_404 e)) (\<lambda>_.
              send_message env_404 7 NOW_FAILED NoMarkup))
         (tick (Sent 7 REQUESTING_WEATHER NoMarkup) world_atlantis)"
proof -
  let ?kvs = "[(''cod'', JStr ''404''), (''message'', JStr ''city not found'')]"
  let ?u = "\<lparr>city = ''Atlantis'', language = ''ru''\<rparr>"
  have strip: "text_strip env_404 msg_atlantis = Inr ''Atlantis''"
    by (simp add: text_strip_def msg_atlantis_def env_404_def env_ok_def)
  have rq: "requests_get env_404 (clock world_atlantis) (weather_url env_404 ''Atlantis'' ''ru'')
            = Body (JObj ?kvs)"
    by (simp add: env_404_def env_ok_def not_found_body_def)
  have h2: "py_get (JObj ?kvs) ''cod'' JNull = Inr (JStr ''404'')" "\<not> py_eq_int (JStr ''404'') 200"
    "obj_lookup ?kvs ''message'' = Some (JStr ''city not found'')"
    by (simp_all add: json_defs)
  have sent: "bot_send env_404 k x y = None" for k x y
    by (simp add: env_404_def env_ok_def)
  have look: "dict_get (users world_atlantis) 7 = Some ?u"
    by (simp add: dict_get_def world_atlantis_def)
  note T = error_text_shown_to_user
      [where env = env_404 and cty = "''Atlantis''" and w = world_atlantis
        and s = "API_ERROR_PREFIX @ ''city not found''" and c = "''Atlantis''" and l = "''ru''"
        and kvs = ?kvs and cod = "JStr ''404''" and pm = "''city not found''"
        and user = ?u and ch = 7]
  note T1 = T[where m = msg_atlantis]
  note T2 = T[where m = msg_now]
  have g: "fst (get_weather env_404 ''Atlantis'' ''ru'' world_atlantis) =
           Inl (WeatherServiceError (API_ERROR_PREFIX @ ''city not found''))"
    using T1 rq h2 by blast
  have tr: "sends (trace world_atlantis) = []"
    by (simp add: world_atlantis_def world0_def)
  have a: "sends (trace (snd (process_city_input env_404 msg_atlantis world_atlantis))) =
       [(7, CITY_NOT_FOUND_1 @ ''Atlantis'' @ CITY_NOT_FOUND_2)]"
    using T1 strip g by (simp add: DEFAULT_LANGUAGE_def tr msg_atlantis_def fmt_opt_def)
  have b: "sends (trace (snd (attempt env_404 7 ?u world_atlantis))) =
       [(7, WEATHER_FAILED_FOR @ ''Atlantis'' @ '': '' @ API_ERROR_PREFIX @ ''city not found'')]"
    using T1 g by (simp add: tr)
  have d: "send_current_weather env_404 msg_now world_atlantis =
       catch_io (send_weather_update env_404 7 ''Atlantis'' ''ru'')
         (\<lambda>e. bind_io (logger ERROR (LOG_NOW_ERROR @ str_exn env_404 e)) (\<lambda>_.
              send_message env_404 7 NOW_FAILED NoMarkup))
         (tick (Sent 7 REQUESTING_WEATHER NoMarkup) world_atlantis)"
    using T2 look sent by (simp add: msg_now_def)
  show ?thesis
    using strip rq h2 g a b look sent d by simp
qed

text \<open>
  C6 fails on \<^verbatim>\<open>resultv2.py\<close>: the weather endpoint answers with status 404 and the message
  \<^verbatim>\<open>city not found\<close>. The broadcast sends the subscriber a message that ends with that
  message of the endpoint, and so does \<^verbatim>\<open>/now\<close> after its notice.
\<close>

theorem broadcast_and_now_send_provider_error_counterexample:
  "requests_get env_404 0 (weather_url env_404 ''Atlantis'' ''ru'') =
     Body (JObj [(''cod'', JStr ''404''), (''message'', JStr ''city not found'')])
   \<and> sends (trace (snd (send_updates_to_all_users env_404 world_atlantis))) =
       [(7, WEATHER_FAILED_FOR @ ''Atlantis: API error: city not found'')]
   \<and> sends (trace (snd (send_current_weather env_404 msg_now world_atlantis))) =
       [(7, REQUESTING_WEATHER),
        (7, WEATHER_FAILED_FOR @ ''Atlantis: API error: city not found'')]"
proof -
  let ?u = "\<lparr>city = ''Atlantis'', language = ''ru''\<rparr>"
  have g: "fst (get_weather env_404 ''Atlantis'' ''ru'' w) =
           Inl (WeatherServiceError (API_ERROR_PREFIX @ ''city not found''))" for w :: "(user_info, step) world"
    using get_weather_not_found[of env_404 w "''Atlantis''" "''ru''"]
    by (simp add: env_404_def env_ok_def)
  have sent: "bot_send env_404 k x y = None" for k x y
    by (simp add: env_404_def env_ok_def)
  have us: "users world_atlantis = [(7, ?u)]"
    by (simp add: world_atlantis_def)
  have tr: "trace world_atlantis = []"
    by (simp add: world_atlantis_def world0_def)
  have b: "sends (trace (snd (send_updates_to_all_users env_404 world_atlantis))) =
       [(7, WEATHER_FAILED_FOR @ ''Atlantis: API error: city not found'')]"
    unfolding send_updates_to_all_users_eq us updates_loop_step
    using sends_attempt_error[of env_404 ?u "snd (logger INFO LOG_STARTING world_atlantis)"
        "API_ERROR_PREFIX @ ''city not found''" 7] g
    by (simp add: logger_def return_io_def sends_append tr API_ERROR_PREFIX_def)
  have look: "dict_get (users world_atlantis) (chat_id msg_now) = Some ?u"
    by (simp add: dict_get_def us msg_now_def)
  let ?w1 = "tick (Sent 7 REQUESTING_WEATHER NoMarkup) world_atlantis"
  obtain r w2 where u: "send_weather_update env_404 7 ''Atlantis'' ''ru'' ?w1 = (r, w2)"
    by (cases "send_weather_update env_404 7 ''Atlantis'' ''ru'' ?w1")
  have s2: "sends (trace w2) =
            [(7, REQUESTING_WEATHER), (7, WEATHER_FAILED_FOR @ ''Atlantis: API error: city not found'')]"
    using sends_send_weather_update_error[of env_404 "''Atlantis''" "''ru''" ?w1
        "API_ERROR_PREFIX @ ''city not found''" 7] g u
    by (simp add: tick_def tr API_ERROR_PREFIX_def)
  have r: "r = Inr ()"
    using u unfolding send_weather_update_error[OF g]
    by (simp add: bind_io_def send_message_accepted[OF sent] logger_def)
  have n: "sends (trace (snd (send_current_weather env_404 msg_now world_atlantis))) =
       [(7, REQUESTING_WEATHER),
        (7, WEATHER_FAILED_FOR @ ''Atlantis: API error: city not found'')]"
    unfolding send_current_weather_subscribed[OF look sent]
    by (simp add: msg_now_def catch_io_def u r s2)
  show ?thesis
    using b n by (simp add: env_404_def env_ok_def not_found_body_def)
qed

section \<open>A record without a city\<close>

lemma get_weather_nothing_to_geocode:
  "fst (get_weather env_geocode [] ''en'' w) =
   Inl (WeatherServiceError (API_ERROR_PREFIX @ ''Nothing to geocode''))"
  by (rule get_weather_api_error[where cod = "JStr ''400''" and pm = "''Nothing to geocode''"
        and kvs = "[(''cod'', JStr ''400''), (''message'', JStr ''Nothing to geocode'')]"])
     (simp_all add: env_geocode_def env_ok_def nothing_to_geocode_body_def weather_url_def
        json_defs)

lemma language_then_english:
  "snd (handle_message env_geocode msg_english (snd (handle_message env_geocode msg_language world0))) =
   \<lparr>users = [(7, \<lparr>city = [], language = ''en''\<rparr>)], next_step = (\<lambda>c. None)(7 := None), clock = 2,
    trace = [Sent 7 CHOOSE_LANGUAGE (ReplyKeyboardMarkup [BUTTON_RUSSIAN, BUTTON_ENGLISH]),
             Sent 7 NOW_SET_CITY NoMarkup]\<rparr>"
proof -
  have l: "snd (handle_message env_geocode msg_language world0) =
           \<lparr>users = [], next_step = (\<lambda>c. None)(7 \<mapsto> PROCESS_LANGUAGE_SELECTION), clock = 1,
            trace = [Sent 7 CHOOSE_LANGUAGE (ReplyKeyboardMarkup [BUTTON_RUSSIAN, BUTTON_ENGLISH])]\<rparr>"
    by (simp add: handle_message_def msg_language_def world0_def env_geocode_def env_ok_def
        one_word_command_def change_language_def io_defs send_message_def tick_def
        register_next_step_handler_def)
  have low: "str_lower env_geocode ''English'' = ''english''"
    by code_simp
  have key: "map_of lang_map ''english'' = Some ''en''"
    by (simp add: lang_map_def KEY_RUSSIAN_def KEY_ENGLISH_def)
  show ?thesis
    unfolding l
    by (simp add: handle_message_def msg_english_def process_language_selection_def low key
        dict_get_def io_defs users_set_def dict_set_def send_message_def tick_def
        env_geocode_def[THEN arg_cong, of bot_send] env_ok_def)
qed

text \<open>
  C3 against the code. \<open>send_updates_to_all_users\<close> has no test of the city: a record
  whose city is empty, as \<open>process_language_selection\<close> stores it for a chat without a
  record, gets its pass like any other, with a fetch for the empty city. With a weather
  endpoint that answers such a request with status 400, the chat that only chose English is
  sent the failure message at every broadcast.
\<close>

theorem broadcast_fetches_for_empty_city:
  "fetches (trace (snd (send_updates_to_all_users env
      (w\<lparr>users := [(c, \<lparr>city = [], language = l\<rparr>)]\<rparr>)))) =
     fetches (trace w) @ [weather_url env [] l]
   \<and> fetches (trace (snd (send_updates_to_all_users env_geocode world_en))) =
       [weather_url env_geocode [] ''en'']
   \<and> sends (trace (snd (send_updates_to_all_users env_geocode world_en))) =
       [(7, WEATHER_FAILED_FOR @ '': API error: Nothing to geocode'')]"
proof -
  let ?u = "\<lparr>city = [], language = ''en''\<rparr>"
  have us: "users world_en = [(7, ?u)]" and tr: "trace world_en = []"
    by (simp_all add: world_en_def world0_def)
  have a: "fetches (trace (snd (send_updates_to_all_users env
      (w\<lparr>users := [(c, \<lparr>city = [], language = l\<rparr>)]\<rparr>)))) =
     fetches (trace w) @ [weather_url env [] l]"
    by (simp add: fetches_send_updates_to_all_users)
  have b: "fetches (trace (snd (send_updates_to_all_users env_geocode world_en))) =
       [weather_url env_geocode [] ''en'']"
    by (simp add: fetches_send_updates_to_all_users us tr)
  have c: "sends (trace (snd (send_updates_to_all_users env_geocode world_en))) =
       [(7, WEATHER_FAILED_FOR @ '': API error: Nothing to geocode'')]"
    unfolding send_updates_to_all_users_eq us updates_loop_step
    using sends_attempt_error[of env_geocode ?u "snd (logger INFO LOG_STARTING world_en)"
        "API_ERROR_PREFIX @ ''Nothing to geocode''" 7]
      get_weather_nothing_to_geocode[of "snd (logger INFO LOG_STARTING world_en)"]
    by (simp add: logger_def return_io_def sends_append tr API_ERROR_PREFIX_def)
  show ?thesis using a b c by simp
qed

text \<open>
  C4 against the code. A chat without a record sends \<^verbatim>\<open>/language\<close> and then \<^verbatim>\<open>English\<close>:
  \<^verbatim>\<open>users\<close> then holds exactly the record with the empty city and the language \<^verbatim>\<open>en\<close>, as
  the claim says. The chat then sends \<^verbatim>\<open>/now\<close>: since the chat is in \<^verbatim>\<open>users\<close>, the reply is
  not the request to set a city first but the notice that the weather is being requested,
  followed by a fetch for the empty city and the failure message of that fetch.
\<close>

theorem now_after_language_only_fetches_empty_city:
  "users (snd (handle_message env_geocode msg_english
             (snd (handle_message env_geocode msg_language world0)))) =
     [(7, \<lparr>city = [], language = ''en''\<rparr>)]
   \<and> sends (trace (snd (handle_message env_geocode msg_now
        (snd (handle_message env_geocode msg_english
           (snd (handle_message env_geocode msg_language world0))))))) =
       [(7, CHOOSE_LANGUAGE), (7, NOW_SET_CITY), (7, REQUESTING_WEATHER),
        (7, WEATHER_FAILED_FOR @ '': API error: Nothing to geocode'')]
   \<and> fetches (trace (snd (handle_message env_geocode msg_now
        (snd (handle_message env_geocode msg_english
           (snd (handle_message env_geocode msg_language world0))))))) =
       [weather_url env_geocode [] ''en'']
   \<and> SET_CITY_FIRST \<noteq> REQUESTING_WEATHER"
proof -
  let ?u = "\<lparr>city = [], language = ''en''\<rparr>"
  let ?w2 = "snd (handle_message env_geocode msg_english
               (snd (handle_message env_geocode msg_language world0)))"
  let ?w3 = "tick (Sent 7 REQUESTING_WEATHER NoMarkup) ?w2"
  note w2 = language_then_english
  have sent: "bot_send env_geocode k x y = None" for k x y
    by (simp add: env_geocode_def env_ok_def)
  have look: "dict_get (users ?w2) (chat_id msg_now) = Some ?u"
    by (simp add: w2 dict_get_def msg_now_def)
  have route: "handle_message env_geocode msg_now ?w2 = send_current_weather env_geocode msg_now ?w2"
    unfolding w2
    by (simp add: handle_message_def msg_now_def env_geocode_def env_ok_def one_word_command_def)
  obtain r w4 where u: "send_weather_update env_geocode 7 [] ''en'' ?w3 = (r, w4)"
    by (cases "send_weather_update env_geocode 7 [] ''en'' ?w3")
  have tr3: "trace ?w3 = [Sent 7 CHOOSE_LANGUAGE (ReplyKeyboardMarkup [BUTTON_RUSSIAN, BUTTON_ENGLISH]),
             Sent 7 NOW_SET_CITY NoMarkup, Sent 7 REQUESTING_WEATHER NoMarkup]"
    by (simp add: w2 tick_def)
  have s4: "sends (trace w4) =
            [(7, CHOOSE_LANGUAGE), (7, NOW_SET_CITY), (7, REQUESTING_WEATHER),
             (7, WEATHER_FAILED_FOR @ '': API error: Nothing to geocode'')]"
    using sends_send_weather_update_error[where c = 7, OF get_weather_nothing_to_geocode[of ?w3]] u
    by (simp add: tr3 API_ERROR_PREFIX_def)
  have f4: "fetches (trace w4) = [weather_url env_geocode [] ''en'']"
    using fetches_exactlyD[OF fetches_send_weather_update, of env_geocode 7 "[]" "''en''" ?w3] u
    by (simp add: tr3)
  have r: "r = Inr ()"
    using u unfolding send_weather_update_error[OF get_weather_nothing_to_geocode[of ?w3]]
    by (simp add: bind_io_def send_message_accepted[OF sent] logger_def)
  have fin: "snd (handle_message env_geocode msg_now ?w2) = w4"
    unfolding route send_current_weather_subscribed[OF look sent]
    by (simp add: msg_now_def catch_io_def u r)
  have ne: "SET_CITY_FIRST \<noteq> REQUESTING_WEATHER"
    by (simp add: SET_CITY_FIRST_def REQUESTING_WEATHER_def)
  show ?thesis
    unfolding fin using s4 f4 ne by (simp add: w2)
qed

section \<open>What a pass of the broadcast sends\<close>

lemma sends_logger: "sends (trace (snd (logger lv t w))) = sends (trace w)"
  by (simp add: logger_def sends_append)

lemma pass_sends_report:
  "fst (get_weather env (city user) (language user) w) = Inr report \<Longrightarrow>
   pass_sends env c user w = [(c, report)]"
  by (simp add: pass_sends_def)

lemma pass_sends_error:
  "fst (get_weather env (city user) (language user) w) = Inl (WeatherServiceError s) \<Longrightarrow>
   pass_sends env c user w = [(c, WEATHER_FAILED_FOR @ city user @ '': '' @ s)]"
  by (simp add: pass_sends_def str_exn_def)

lemma sends_attempt:
  "sends (trace (snd (attempt env c user w))) = sends (trace w) @ pass_sends env c user w"
proof -
  let ?g = "get_weather env (city user) (language user)"
  let ?w1 = "tick (HttpGet (weather_url env (city user) (language user))) w"
  have tr1: "sends (trace ?w1) = sends (trace w)"
    by (simp add: tick_def sends_append)
  obtain r where r: "fst (?g w) = r" by simp
  have g: "?g w = (r, ?w1)"
    using get_weather_eq[of env "city user" "language user" w] r by simp
  show ?thesis
  proof (cases r)
    case (Inr report)
    have "send_weather_update env c (city user) (language user) w =
          catch_io
            (bind_io (send_message env c report NoMarkup) (\<lambda>_.
             logger INFO (LOG_SENT_TO @ fmt env (JInt c) @ LOG_FOR @ city user)))
            (\<lambda>e. if is_WeatherServiceError e then
                    bind_io
                      (send_message env c (WEATHER_FAILED_FOR @ city user @ '': '' @ str_exn env e) NoMarkup)
                      (\<lambda>_. logger ERROR (WEATHER_FAILED_FOR @ city user @ '': '' @ str_exn env e))
                  else logger ERROR (LOG_UNEXPECTED_FOR @ fmt env (JInt c) @ '': '' @ str_exn env e))
            ?w1"
      unfolding send_weather_update_def
      by (simp add: catch_bind_Inr[where m = ?g, OF g[unfolded Inr]])
    then show ?thesis
      using tr1 r Inr
      by (simp add: attempt_def pass_sends_def catch_io_def bind_io_def send_message_def
          logger_def tick_def sends_append split: option.splits)
  next
    case (Inl e)
    show ?thesis
    proof (cases e)
      case (WeatherServiceError s)
      show ?thesis
        using sends_attempt_error[of env user w s c] r Inl WeatherServiceError
        by (simp add: pass_sends_error)
    qed (use g[unfolded Inl] tr1 r Inl in
          \<open>simp_all add: attempt_def pass_sends_def send_weather_update_def catch_io_def
             bind_io_def logger_def sends_append\<close>)
  qed
qed

lemma get_weather_request_exception:
  assumes "requests_get env (clock w) (weather_url env c l) = RaisesRequestException s"
  shows "fst (get_weather env c l w) = Inl (WeatherServiceError (CONNECTION_ERROR_PREFIX @ s))"
  unfolding get_weather_def
  by (simp add: io_defs http_get_json_def assms)

lemma v1_send_weather_update_returned:
  assumes "v1_get_weather env cty v = (Inr msg, v1)"
  shows "v1_send_weather_update env c cty v = send_message env c msg NoMarkup v1"
  by (simp add: v1_send_weather_update_def bind_io_def assms)

text \<open>
  C2, as the code has it. In \<^verbatim>\<open>resultv2.py\<close>, for every subscriber set and whatever the
  weather endpoint and the chat transport do, \<open>send_updates_to_all_users\<close> returns
  normally, leaves \<^verbatim>\<open>users\<close> as it is and makes a delivery attempt for every record of the
  snapshot, in order: a pass of the loop never raises, so the loop goes on with the rest
  after every pass; a pass makes one fetch and hands the chat transport the report the
  fetch returned, for that chat (the failure message when the fetch raised a
  \<open>WeatherServiceError\<close>). In \<^verbatim>\<open>resultv1.py\<close>, a fetch answered with a status other than
  200 makes \<open>get_weather\<close> return the failure text, a pass whose fetch returned hands the
  text to the chat transport, and the loop goes on after a pass that returns; a pass that
  raises ends the loop with that exception.
\<close>

theorem broadcast_attempts_every_subscriber:
  "returns (send_updates_to_all_users env w)
   \<and> users (snd (send_updates_to_all_users env w)) = users w
   \<and> fetches (trace (snd (send_updates_to_all_users env w))) =
       fetches (trace w) @ map (\<lambda>(c, user). weather_url env (city user) (language user)) (users w)
   \<and> returns (attempt env c user w)
   \<and> updates_loop env ((c, user) # rest) w = updates_loop env rest (snd (attempt env c user w))
   \<and> sends (trace (snd (attempt env c user w))) = sends (trace w) @ pass_sends env c user w
   \<and> (fst (get_weather env (city user) (language user) w) = Inr report
      \<longrightarrow> sends (trace (snd (attempt env c user w))) = sends (trace w) @ [(c, report)])
   \<and> (fst (get_weather env (city user) (language user) w) = Inl (WeatherServiceError s)
      \<longrightarrow> sends (trace (snd (attempt env c user w))) =
          sends (trace w) @ [(c, WEATHER_FAILED_FOR @ city user @ '': '' @ s)])
   \<and> (requests_get env (clock v) (v1_weather_url env cty) = Body (JObj kvs)
        \<and> py_get (JObj kvs) ''cod'' JNull = Inr cod \<and> \<not> py_eq_int cod 200
      \<longrightarrow> v1_get_weather env cty v =
            (Inr V1_WEATHER_FAILED, tick (HttpGet (v1_weather_url env cty)) v))
   \<and> (v1_get_weather env cty v = (Inr msg, vmid)
      \<longrightarrow> v1_send_weather_update env c1 cty v = send_message env c1 msg NoMarkup vmid)
   \<and> (v1_send_weather_update env c1 (v1_city user1) v = (Inr (), v')
      \<longrightarrow> v1_updates_loop env ((c1, user1) # rest1) v = v1_updates_loop env rest1 v')
   \<and> (v1_send_weather_update env c1 (v1_city user1) v = (Inl e, v')
      \<longrightarrow> v1_updates_loop env ((c1, user1) # rest1) v = (Inl e, v'))"
proof -
  let ?w1 = "snd (logger INFO LOG_STARTING w)"
  let ?w2 = "snd (updates_loop env (users w) ?w1)"
  have eq: "send_updates_to_all_users env w = logger INFO LOG_COMPLETED ?w2"
    by (rule send_updates_to_all_users_eq)
  have a: "returns (send_updates_to_all_users env w)"
    unfolding eq by (rule returns_logger)
  have b: "users (snd (send_updates_to_all_users env w)) = users w"
    unfolding eq
    by (simp add: keepsD(1)[OF keeps_logger] keepsD(1)[OF keeps_updates_loop])
  have c: "fetches (trace (snd (send_updates_to_all_users env w))) =
       fetches (trace w) @ map (\<lambda>(c, user). weather_url env (city user) (language user)) (users w)"
    unfolding eq
    by (simp add: fetches_exactlyD[OF fetches_logger, simplified] updates_loop_fetches)
  show ?thesis
    by (intro conjI impI a b c attempt_returns updates_loop_step sends_attempt)
       (simp_all add: v1_get_weather_not_200 bind_io_def sends_attempt pass_sends_report
          pass_sends_error v1_send_weather_update_returned)
qed

theorem broadcast_attempts_every_subscriber_witness:
  "requests_get env_404 (clock v1_world2) (v1_weather_url env_404 ''Paris'') =
     Body (JObj [(''cod'', JStr ''404''), (''message'', JStr ''city not found'')])
   \<and> py_get (JObj [(''cod'', JStr ''404''), (''message'', JStr ''city not found'')]) ''cod'' JNull
     = Inr (JStr ''404'')
   \<and> \<not> py_eq_int (JStr ''404'') 200
   \<and> v1_get_weather env_404 ''Paris'' v1_world2 =
       (Inr V1_WEATHER_FAILED, tick (HttpGet (v1_weather_url env_404 ''Paris'')) v1_world2)
   \<and> v1_send_weather_update env_404 1 ''Paris'' v1_world2 =
       send_message env_404 1 V1_WEATHER_FAILED NoMarkup
         (tick (HttpGet (v1_weather_url env_404 ''Paris'')) v1_world2)
   \<and> v1_send_weather_update env_404 1 ''Paris'' v1_world2 =
       (Inr (), tick (Sent 1 V1_WEATHER_FAILED NoMarkup)
                  (tick (HttpGet (v1_weather_url env_404 ''Paris'')) v1_world2))
   \<and> v1_updates_loop env_404 [(1, \<lparr>v1_city = ''Paris''\<rparr>), (2, \<lparr>v1_city = ''Rome''\<rparr>)] v1_world2 =
       v1_updates_loop env_404 [(2, \<lparr>v1_city = ''Rome''\<rparr>)]
         (tick (Sent 1 V1_WEATHER_FAILED NoMarkup)
            (tick (HttpGet (v1_weather_url env_404 ''Paris'')) v1_world2))
   \<and> v1_send_weather_update env_timeout 1 ''Paris'' v1_world2 =
       (Inl (RequestException ''timed out''),
        tick (HttpGet (v1_weather_url env_timeout ''Paris'')) v1_world2)
   \<and> v1_updates_loop env_timeout [(1, \<lparr>v1_city = ''Paris''\<rparr>), (2, \<lparr>v1_city = ''Rome''\<rparr>)] v1_world2 =
       (Inl (RequestException ''timed out''),
        tick (HttpGet (v1_weather_url env_timeout ''Paris'')) v1_world2)
   \<and> fst (get_weather env_timeout ''Paris'' ''ru'' (snd (logger INFO LOG_STARTING world2))) =
       Inl (WeatherServiceError (CONNECTION_ERROR_PREFIX @ ''timed out''))
   \<and> fst (get_weather env_timeout ''Rome'' ''ru''
        (snd (attempt env_timeout 1 \<lparr>city = ''Paris'', language = ''ru''\<rparr>
           (snd (logger INFO LOG_STARTING world2))))) =
       Inr (REPORT_CITY @ ''Rome'' @ REPORT_TEMPERATURE @ py_str env_timeout (JInt 5)
            @ REPORT_CONDITION @ str_capitalize env_timeout ''clear sky''
            @ REPORT_HUMIDITY @ py_str env_timeout (JInt 80)
            @ REPORT_WIND @ py_str env_timeout (JInt 3) @ REPORT_WIND_UNIT)
   \<and> sends (trace (snd (send_updates_to_all_users env_timeout world2))) =
       [(1, WEATHER_FAILED_FOR @ ''Paris'' @ '': '' @ CONNECTION_ERROR_PREFIX @ ''timed out''),
        (2, REPORT_CITY @ ''Rome'' @ REPORT_TEMPERATURE @ py_str env_timeout (JInt 5)
            @ REPORT_CONDITION @ str_capitalize env_timeout ''clear sky''
            @ REPORT_HUMIDITY @ py_str env_timeout (JInt 80)
            @ REPORT_WIND @ py_str env_timeout (JInt 3) @ REPORT_WIND_UNIT)]"
proof -
  let ?kvs = "[(''cod'', JStr ''404''), (''message'', JStr ''city not found'')]"
  let ?url = "v1_weather_url env_404 ''Paris''"
  let ?vh = "tick (HttpGet ?url) v1_world2"
  let ?v2 = "tick (Sent 1 V1_WEATHER_FAILED NoMarkup) ?vh"
  let ?vt = "tick (HttpGet (v1_weather_url env_timeout ''Paris'')) v1_world2"
  let ?uP = "\<lparr>city = ''Paris'', language = ''ru''\<rparr>"
  let ?uR = "\<lparr>city = ''Rome'', language = ''ru''\<rparr>"
  let ?wA = "snd (logger INFO LOG_STARTING world2)"
  let ?wB = "snd (attempt env_timeout 1 ?uP ?wA)"
  let ?fail = "CONNECTION_ERROR_PREFIX @ ''timed out''"
  let ?rep = "REPORT_CITY @ ''Rome'' @ REPORT_TEMPERATURE @ py_str env_timeout (JInt 5)
            @ REPORT_CONDITION @ str_capitalize env_timeout ''clear sky''
            @ REPORT_HUMIDITY @ py_str env_timeout (JInt 80)
            @ REPORT_WIND @ py_str env_timeout (JInt 3) @ REPORT_WIND_UNIT"
  have h1: "requests_get env_404 (clock v1_world2) ?url = Body (JObj ?kvs)"
    by (simp add: env_404_def env_ok_def not_found_body_def)
  have h2: "py_get (JObj ?kvs) ''cod'' JNull = Inr (JStr ''404'')"
    by (simp add: py_get_def obj_lookup_def)
  have h3: "\<not> py_eq_int (JStr ''404'') 200"
    by (simp add: py_eq_int_def)
  note T1 = broadcast_attempts_every_subscriber
      [where env = env_404 and v = v1_world2 and cty = "''Paris''" and kvs = ?kvs
        and cod = "JStr ''404''" and ?c1.0 = 1 and ?user1.0 = "\<lparr>v1_city = ''Paris''\<rparr>"
        and ?rest1.0 = "[(2, \<lparr>v1_city = ''Rome''\<rparr>)]" and v' = ?v2
        and e = "RequestException []" and w = "world0 :: (user_info, step) world" and c = 1
        and user = "\<lparr>city = [], language = []\<rparr>" and rest = "[]"
        and report = "[]" and s = "[]" and msg = V1_WEATHER_FAILED and vmid = ?vh]
  note T2 = broadcast_attempts_every_subscriber
      [where env = env_timeout and v = v1_world2 and ?c1.0 = 1
        and ?user1.0 = "\<lparr>v1_city = ''Paris''\<rparr>"
        and ?rest1.0 = "[(2, \<lparr>v1_city = ''Rome''\<rparr>)]" and v' = ?vt
        and e = "RequestException ''timed out''" and cty = "''Paris''" and kvs = ?kvs
        and cod = "JStr ''404''" and w = ?wA and c = 1
        and user = ?uP and rest = "[(2, ?uR)]"
        and report = "[]" and s = ?fail and msg = "[]" and vmid = v1_world2]
  note T3 = broadcast_attempts_every_subscriber
      [where env = env_timeout and v = v1_world2 and ?c1.0 = 1
        and ?user1.0 = "\<lparr>v1_city = ''Paris''\<rparr>"
        and ?rest1.0 = "[(2, \<lparr>v1_city = ''Rome''\<rparr>)]" and v' = ?vt
        and e = "RequestException ''timed out''" and cty = "''Paris''" and kvs = ?kvs
        and cod = "JStr ''404''" and w = ?wB and c = 2
        and user = ?uR and rest = "[]"
        and report = ?rep and s = "[]" and msg = "[]" and vmid = v1_world2]
  have g: "v1_get_weather env_404 ''Paris'' v1_world2 = (Inr V1_WEATHER_FAILED, ?vh)"
    using T1 h1 h2 h3 by blast
  have sent: "bot_send env_404 t c x = None" for t c x
    by (simp add: env_404_def env_ok_def)
  have s0: "v1_send_weather_update env_404 1 ''Paris'' v1_world2 =
            send_message env_404 1 V1_WEATHER_FAILED NoMarkup ?vh"
    using T1 g by blast
  have s1: "v1_send_weather_update env_404 1 ''Paris'' v1_world2 = (Inr (), ?v2)"
    by (simp add: s0 send_message_accepted sent)
  have l1: "v1_updates_loop env_404 [(1, \<lparr>v1_city = ''Paris''\<rparr>), (2, \<lparr>v1_city = ''Rome''\<rparr>)] v1_world2 =
       v1_updates_loop env_404 [(2, \<lparr>v1_city = ''Rome''\<rparr>)] ?v2"
    using T1 s1 by (simp del: v1_updates_loop.simps updates_loop.simps)
  have rq: "requests_get env_timeout (clock v1_world2) (v1_weather_url env_timeout ''Paris'')
            = RaisesRequestException ''timed out''"
    by (simp add: env_timeout_def env_ok_def v1_world2_def world0_def)
  have s2: "v1_send_weather_update env_timeout 1 ''Paris'' v1_world2 =
       (Inl (RequestException ''timed out''), ?vt)"
    by (simp add: v1_send_weather_update_def bind_io_def v1_get_weather_request_exception[OF rq])
  have l2: "v1_updates_loop env_timeout [(1, \<lparr>v1_city = ''Paris''\<rparr>), (2, \<lparr>v1_city = ''Rome''\<rparr>)] v1_world2 =
       (Inl (RequestException ''timed out''), ?vt)"
    using T2 s2 by (simp del: v1_updates_loop.simps updates_loop.simps)
  have sent_t: "bot_send env_timeout t c x = None" for t c x
    by (simp add: env_timeout_def env_ok_def)
  have us: "users world2 = [(1, ?uP), (2, ?uR)]"
    by (simp add: world2_def)
  have wA: "clock ?wA = 0" "sends (trace ?wA) = []"
    by (simp_all add: logger_def world2_def world0_def)
  have gA: "fst (get_weather env_timeout ''Paris'' ''ru'' ?wA) = Inl (WeatherServiceError ?fail)"
    by (rule get_weather_request_exception) (simp add: wA env_timeout_def env_ok_def)
  have "fst (get_weather env_timeout (city ?uP) (language ?uP) ?wA) = Inl (WeatherServiceError ?fail)
        \<longrightarrow> sends (trace ?wB) =
            sends (trace ?wA) @ [(1, WEATHER_FAILED_FOR @ city ?uP @ '': '' @ ?fail)]"
    using T2 by blast
  then have sA: "sends (trace ?wB) = [(1, WEATHER_FAILED_FOR @ ''Paris'' @ '': '' @ ?fail)]"
    using gA wA(2) by simp
  have uA: "send_weather_update env_timeout 1 (city ?uP) (language ?uP) ?wA =
            bind_io (send_message env_timeout 1 (WEATHER_FAILED_FOR @ ''Paris'' @ '': '' @ ?fail) NoMarkup)
              (\<lambda>_. logger ERROR (WEATHER_FAILED_FOR @ ''Paris'' @ '': '' @ ?fail))
              (tick (HttpGet (weather_url env_timeout ''Paris'' ''ru'')) ?wA)"
    using send_weather_update_error[OF gA, of 1] by simp
  have cB: "clock ?wB = 2"
    unfolding attempt_def catch_io_def uA
    by (simp add: bind_io_def send_message_accepted[OF sent_t])
       (simp add: logger_def tick_def world2_def world0_def)
  have gB: "fst (get_weather env_timeout ''Rome'' ''ru'' ?wB) = Inr ?rep"
    using get_weather_report[of env_timeout ?wB "''Rome''" "''ru''"]
    by (simp add: cB env_timeout_def[THEN arg_cong, of requests_get] env_ok_def)
  have "fst (get_weather env_timeout (city ?uR) (language ?uR) ?wB) = Inr ?rep
        \<longrightarrow> sends (trace (snd (attempt env_timeout 2 ?uR ?wB))) = sends (trace ?wB) @ [(2, ?rep)]"
    using T3 by blast
  then have sB: "sends (trace (snd (attempt env_timeout 2 ?uR ?wB))) =
            [(1, WEATHER_FAILED_FOR @ ''Paris'' @ '': '' @ ?fail), (2, ?rep)]"
    using gB sA by simp
  have loop1: "updates_loop env_timeout ((1, ?uP) # [(2, ?uR)]) ?wA =
               updates_loop env_timeout [(2, ?uR)] ?wB"
    using T2 by blast
  have loop2: "updates_loop env_timeout ((2, ?uR) # []) ?wB =
               updates_loop env_timeout [] (snd (attempt env_timeout 2 ?uR ?wB))"
    using T3 by blast
  have loop: "updates_loop env_timeout [(1, ?uP), (2, ?uR)] ?wA =
              updates_loop env_timeout [] (snd (attempt env_timeout 2 ?uR ?wB))"
    using loop1 loop2 by (simp del: updates_loop.simps)
  have run: "sends (trace (snd (send_updates_to_all_users env_timeout world2))) =
             [(1, WEATHER_FAILED_FOR @ ''Paris'' @ '': '' @ ?fail), (2, ?rep)]"
    unfolding send_updates_to_all_users_eq us loop
    by (simp add: return_io_def sends_logger sB)
  show ?thesis
    using h1 h2 h3 g s0 s1 l1 s2 l2 gA gB run by (simp del: v1_updates_loop.simps)
qed

text \<open>
  C2 fails on \<^verbatim>\<open>resultv1.py\<close>: with two subscribers, when the request for the first times
  out, the exception leaves the loop; nothing is fetched and nothing is sent for the second
  subscriber, whose own update would have gone through.
\<close>

theorem v1_broadcast_aborts_counterexample:
  "v1_send_updates_to_all_users env_timeout v1_world2 =
     (Inl (RequestException ''timed out''),
      tick (HttpGet (v1_weather_url env_timeout ''Paris'')) v1_world2)
   \<and> length (users v1_world2) = 2
   \<and> fetches (trace (snd (v1_send_updates_to_all_users env_timeout v1_world2))) =
       [v1_weather_url env_timeout ''Paris'']
   \<and> sends (trace (snd (v1_send_updates_to_all_users env_timeout v1_world2))) = []
   \<and> returns (v1_send_weather_update env_timeout 2 ''Rome''
        (snd (v1_send_updates_to_all_users env_timeout v1_world2)))"
proof -
  let ?vt = "tick (HttpGet (v1_weather_url env_timeout ''Paris'')) v1_world2"
  have rq: "requests_get env_timeout (clock v1_world2) (v1_weather_url env_timeout ''Paris'')
            = RaisesRequestException ''timed out''"
    by (simp add: env_timeout_def env_ok_def v1_world2_def world0_def)
  have run: "v1_send_updates_to_all_users env_timeout v1_world2 =
       (Inl (RequestException ''timed out''), ?vt)"
    by (simp add: v1_send_updates_to_all_users_def v1_world2_def[THEN arg_cong, of users]
        world0_def v1_send_weather_update_def bind_io_def
        v1_get_weather_request_exception[OF rq])
  have tr: "trace ?vt = [HttpGet (v1_weather_url env_timeout ''Paris'')]"
    by (simp add: tick_def v1_world2_def world0_def)
  have rome: "returns (v1_send_weather_update env_timeout 2 ''Rome'' ?vt)"
    by (simp add: v1_send_weather_update_def v1_get_weather_def io_defs json_defs
        http_get_json_def translate_def send_message_def tick_def env_timeout_def env_ok_def
        report_body_def returns_def v1_world2_def world0_def)
  show ?thesis
    by (simp add: run tr rome) (simp add: v1_world2_def world0_def)
qed

section \<open>Two broadcasts in a row\<close>

lemma fst_get_weather_stable:
  assumes "stable_weather env"
  shows "fst (get_weather env c l (w :: ('u, 'h) world)) =
         fst (get_weather env c l (w' :: ('u, 'h) world))"
proof -
  obtain r where "\<And>x :: ('u, 'h) world. fst (get_weather env c l x) = r"
    using oblivious_get_weather[OF assms, of c l] unfolding oblivious_def by blast
  then show ?thesis by simp
qed

lemma pass_sends_stable:
  assumes "stable_weather env"
  shows "pass_sends env c user (w :: ('u, 'h) world) = pass_sends env c user (w' :: ('u, 'h) world)"
  unfolding pass_sends_def
  using fst_get_weather_stable[OF assms, of "city user" "language user" w w'] by simp

lemma sends_updates_loop:
  assumes "stable_weather env"
  shows "sends (trace (snd (updates_loop env us (w :: ('u, 'h) world)))) =
         sends (trace w)
         @ concat (map (\<lambda>(c, user). pass_sends env c user (wr :: ('u, 'h) world)) us)"
proof (induction us arbitrary: w)
  case Nil
  show ?case by (simp add: return_io_def)
next
  case (Cons p us)
  obtain c user where p: "p = (c, user)" by (cases p)
  have "sends (trace (snd (updates_loop env (p # us) w))) =
        sends (trace (snd (attempt env c user w)))
        @ concat (map (\<lambda>(c, user). pass_sends env c user wr) us)"
    unfolding p updates_loop_step by (rule Cons.IH)
  then show ?case
    by (simp add: p sends_attempt pass_sends_stable[OF assms, of c user w wr])
qed

lemma sends_send_updates_to_all_users:
  assumes "stable_weather env"
  shows "sends (trace (snd (send_updates_to_all_users env (w :: (user_info, 'h) world)))) =
         sends (trace w)
         @ concat (map (\<lambda>(c, user). pass_sends env c user (wr :: (user_info, 'h) world)) (users w))"
  unfolding send_updates_to_all_users_eq
  by (simp add: sends_logger sends_updates_loop[OF assms, where wr = wr])

text \<open>
  C8, as the code has it. In \<^verbatim>\<open>resultv2.py\<close>, a broadcast leaves \<^verbatim>\<open>users\<close> as it is and
  makes one fetch for every record, whatever the outside world does: two broadcasts in a
  row each add as many fetches as there are subscribers. When the weather endpoint answers
  a request the same way whenever it is made, each of the two broadcasts hands the chat
  transport the same texts for the same chats, whatever the transport does with them. In
  \<^verbatim>\<open>resultv1.py\<close>, the second of two broadcasts in a row produces the very events of the
  first when the weather endpoint, the translator and the chat transport all answer a call
  the same way whenever it is made.
\<close>

theorem successive_broadcasts_same_attempts:
  "users (snd (send_updates_to_all_users env w)) = users w
   \<and> fetches (trace (snd (send_updates_to_all_users env w))) =
       fetches (trace w) @ map (\<lambda>(c, user). weather_url env (city user) (language user)) (users w)
   \<and> fetches (trace (snd (send_updates_to_all_users env (snd (send_updates_to_all_users env w))))) =
       fetches (trace (snd (send_updates_to_all_users env w)))
       @ map (\<lambda>(c, user). weather_url env (city user) (language user)) (users w)
   \<and> (stable_weather env \<longrightarrow>
        sends (trace (snd (send_updates_to_all_users env w))) =
          sends (trace w) @ concat (map (\<lambda>(c, user). pass_sends env c user w) (users w))
        \<and> sends (trace (snd (send_updates_to_all_users env (snd (send_updates_to_all_users env w))))) =
          sends (trace (snd (send_updates_to_all_users env w)))
          @ concat (map (\<lambda>(c, user). pass_sends env c user w) (users w)))
   \<and> (stable_outside env \<longrightarrow>
        emitted (v1_send_updates_to_all_users env) (snd (v1_send_updates_to_all_users env v)) =
        emitted (v1_send_updates_to_all_users env) v)"
proof -
  let ?w1 = "snd (send_updates_to_all_users env w)"
  have u: "users ?w1 = users w"
    by (rule users_send_updates_to_all_users)
  have f1: "fetches (trace ?w1) =
       fetches (trace w) @ map (\<lambda>(c, user). weather_url env (city user) (language user)) (users w)"
    by (rule fetches_send_updates_to_all_users)
  have f2: "fetches (trace (snd (send_updates_to_all_users env ?w1))) =
       fetches (trace ?w1) @ map (\<lambda>(c, user). weather_url env (city user) (language user)) (users w)"
    using fetches_send_updates_to_all_users[of env ?w1] by (simp only: u)
  have s1: "sends (trace ?w1) =
       sends (trace w) @ concat (map (\<lambda>(c, user). pass_sends env c user w) (users w))"
    if "stable_weather env"
    by (rule sends_send_updates_to_all_users[OF that])
  have s2: "sends (trace (snd (send_updates_to_all_users env ?w1))) =
       sends (trace ?w1) @ concat (map (\<lambda>(c, user). pass_sends env c user w) (users w))"
    if "stable_weather env"
    using sends_send_updates_to_all_users[OF that, of ?w1 w] by (simp only: u)
  show ?thesis
    by (intro conjI impI u f1 f2 s1 s2 v1_send_updates_twice_same_events)
qed

theorem successive_broadcasts_same_attempts_witness:
  "stable_weather env_refuse
   \<and> bot_send env_refuse 2 \<noteq> bot_send env_refuse 0
   \<and> sends (trace (snd (send_updates_to_all_users env_refuse world2))) =
       concat (map (\<lambda>(c, user). pass_sends env_refuse c user world2) (users world2))
   \<and> sends (trace (snd (send_updates_to_all_users env_refuse
        (snd (send_updates_to_all_users env_refuse world2))))) =
       concat (map (\<lambda>(c, user). pass_sends env_refuse c user world2) (users world2))
       @ concat (map (\<lambda>(c, user). pass_sends env_refuse c user world2) (users world2))
   \<and> map fst (concat (map (\<lambda>(c, user). pass_sends env_refuse c user world2) (users world2))) = [1, 2]
   \<and> stable_outside env_ok
   \<and> emitted (v1_send_updates_to_all_users env_ok) (snd (v1_send_updates_to_all_users env_ok v1_world2)) =
     emitted (v1_send_updates_to_all_users env_ok) v1_world2"
proof -
  have sw: "stable_weather env_refuse"
    by (simp add: stable_weather_def env_refuse_def env_ok_def)
  have so: "stable_outside env_ok"
    by (simp add: stable_outside_def stable_weather_def env_ok_def)
  have nb: "bot_send env_refuse 2 \<noteq> bot_send env_refuse 0"
    by (simp add: env_refuse_def fun_eq_iff)
  have t0: "sends (trace world2) = []"
    by (simp add: world2_def world0_def)
  have rq: "requests_get env_refuse t url = Body report_body" for t url
    by (simp add: env_refuse_def env_ok_def)
  have ps: "pass_sends env_refuse c user world2 =
            [(c, REPORT_CITY @ city user @ REPORT_TEMPERATURE @ py_str env_refuse (JInt 5)
               @ REPORT_CONDITION @ str_capitalize env_refuse ''clear sky''
               @ REPORT_HUMIDITY @ py_str env_refuse (JInt 80)
               @ REPORT_WIND @ py_str env_refuse (JInt 3) @ REPORT_WIND_UNIT)]" for c user
    by (simp add: pass_sends_def get_weather_report[OF rq])
  have cs: "map fst (concat (map (\<lambda>(c, user). pass_sends env_refuse c user world2) (users world2))) = [1, 2]"
    by (simp add: ps) (simp add: world2_def world0_def)
  note T = successive_broadcasts_same_attempts[of env_refuse world2 v1_world2]
  note V = successive_broadcasts_same_attempts[of env_ok world2 v1_world2]
  have a: "sends (trace (snd (send_updates_to_all_users env_refuse world2))) =
       sends (trace world2) @ concat (map (\<lambda>(c, user). pass_sends env_refuse c user world2) (users world2))"
    using T sw by blast
  have b: "sends (trace (snd (send_updates_to_all_users env_refuse
        (snd (send_updates_to_all_users env_refuse world2))))) =
       sends (trace (snd (send_updates_to_all_users env_refuse world2)))
       @ concat (map (\<lambda>(c, user). pass_sends env_refuse c user world2) (users world2))"
    using T sw by blast
  have c: "emitted (v1_send_updates_to_all_users env_ok) (snd (v1_send_updates_to_all_users env_ok v1_world2)) =
     emitted (v1_send_updates_to_all_users env_ok) v1_world2"
    using V so by blast
  show ?thesis
    by (intro conjI sw nb cs so c) (simp_all only: a b t0 append_Nil)
qed

text \<open>
  C8 fails on \<^verbatim>\<open>resultv1.py\<close>: the weather endpoint answers every request alike and
  \<^verbatim>\<open>users\<close> does not change, but the chat transport refuses the first message. The first
  broadcast ends there, after one fetch and one message handed to the transport; the second
  broadcast goes through both subscribers, with two fetches and two messages.
\<close>

theorem v1_successive_broadcasts_differ_counterexample:
  "stable_weather env_refuse
   \<and> fst (v1_send_updates_to_all_users env_refuse v1_world2) =
       Inl (OtherException ''Too Many Requests'')
   \<and> users (snd (v1_send_updates_to_all_users env_refuse v1_world2)) = users v1_world2
   \<and> fetches (emitted (v1_send_updates_to_all_users env_refuse) v1_world2) =
       [v1_weather_url env_refuse ''Paris'']
   \<and> fetches (emitted (v1_send_updates_to_all_users env_refuse)
        (snd (v1_send_updates_to_all_users env_refuse v1_world2))) =
       [v1_weather_url env_refuse ''Paris'', v1_weather_url env_refuse ''Rome'']
   \<and> map fst (sends (emitted (v1_send_updates_to_all_users env_refuse) v1_world2)) = [1]
   \<and> map fst (sends (emitted (v1_send_updates_to_all_users env_refuse)
        (snd (v1_send_updates_to_all_users env_refuse v1_world2)))) = [1, 2]"
proof -
  let ?P = "v1_weather_url env_refuse ''Paris''"
  let ?R = "v1_weather_url env_refuse ''Rome''"
  let ?rep = "\<lambda>c. V1_REPORT_1 @ c @ V1_REPORT_2 @ py_str env_refuse (JInt 5) @ V1_REPORT_3 @ ''yasno''"
  let ?evs1 = "[HttpGet ?P, Translate (JStr ''clear sky''), SendFailed 1 (?rep ''Paris'') NoMarkup]"
  let ?evs2 = "[HttpGet ?P, Translate (JStr ''clear sky''), Sent 1 (?rep ''Paris'') NoMarkup,
                HttpGet ?R, Translate (JStr ''clear sky''), Sent 2 (?rep ''Rome'') NoMarkup]"
  let ?us = "[(1, \<lparr>v1_city = ''Paris''\<rparr>), (2, \<lparr>v1_city = ''Rome''\<rparr>)]"
  let ?v1 = "\<lparr>users = ?us, next_step = (\<lambda>c. None), clock = 3, trace = ?evs1\<rparr>
             :: (v1_user_info, v1_step) world"
  have sw: "stable_weather env_refuse"
    by (simp add: stable_weather_def env_refuse_def env_ok_def)
  have run1: "v1_send_updates_to_all_users env_refuse v1_world2 =
              (Inl (OtherException ''Too Many Requests''), ?v1)"
    by (simp add: v1_send_updates_to_all_users_def v1_send_weather_update_def v1_get_weather_def
        io_defs json_defs http_get_json_def translate_def send_message_def tick_def
        env_refuse_def env_ok_def report_body_def v1_world2_def world0_def)
  have run2: "trace (snd (v1_send_updates_to_all_users env_refuse ?v1)) = ?evs1 @ ?evs2"
    by (simp add: v1_send_updates_to_all_users_def v1_send_weather_update_def v1_get_weather_def
        io_defs json_defs http_get_json_def translate_def send_message_def tick_def
        env_refuse_def env_ok_def report_body_def)
  have t0: "trace v1_world2 = []" "users v1_world2 = ?us"
    by (simp_all add: v1_world2_def world0_def)
  show ?thesis
    unfolding emitted_def run1 snd_conv fst_conv run2
    by (simp add: sw t0)
qed

end
